theory Spec2Isabelle
  imports Main "HOL-Library.Sublist" "HOL-Library.Code_Target_Numeral"
begin

section \<open>Python values used by \<^verbatim>\<open>dexscreener_app.py\<close>\<close>

text \<open>
  The program works on the JSON document that \<^verbatim>\<open>response.json()\<close> returns, converts two
  of its fields with the builtin \<^verbatim>\<open>float\<close> and prints them with the format
  specification \<^verbatim>\<open>.2f\<close>. A Python \<^verbatim>\<open>str\<close> is a \<^typ>\<open>string\<close>: a list of characters read as
  code points below 256. A Python \<^verbatim>\<open>float\<close> is an IEEE 754 binary64 number, kept here with
  its exact value: \<open>Finite s m e\<close> stands for \<open>(-1)\<^sup>s * m * 2\<^sup>e\<close>.
\<close>

datatype pyfloat = Finite bool nat int | Infinity bool | NaN

datatype exn =
    KeyError string
  | TypeError
  | ValueError
  | OverflowError
  | Exception string

subsection \<open>Rounding to binary64\<close>

fun bitlen :: "nat \<Rightarrow> nat" where
  "bitlen n = (if n = 0 then 0 else Suc (bitlen (n div 2)))"

declare bitlen.simps [simp del]

text \<open>Nearest integer to \<open>n / d\<close>, ties to the even neighbour.\<close>

definition round_half_even :: "nat \<Rightarrow> nat \<Rightarrow> nat" where
  "round_half_even n d =
     (let q = n div d; r = n mod d
      in if 2 * r < d then q
         else if d < 2 * r then q + 1
         else if even q then q else q + 1)"

text \<open>
  \<open>scaled n d e\<close> is \<open>n / (d * 2\<^sup>e)\<close> rounded to an integer: the significand of \<open>n / d\<close>
  at the binary exponent \<open>e\<close>.
\<close>

definition scaled :: "nat \<Rightarrow> nat \<Rightarrow> int \<Rightarrow> nat" where
  "scaled n d e =
     (if 0 \<le> e then round_half_even n (d * 2 ^ nat e)
      else round_half_even (n * 2 ^ nat (- e)) d)"

text \<open>
  The binary exponent at which \<open>n / d\<close> has a 53-bit significand, not below the exponent
  \<open>-1074\<close> of the subnormal numbers.
\<close>

definition binary_exponent :: "nat \<Rightarrow> nat \<Rightarrow> int" where
  "binary_exponent n d =
     (let e0 = int (bitlen n) - int (bitlen d) - 53;
          e1 = (if (if 0 \<le> e0 then d * 2 ^ nat e0 * 2 ^ 53 \<le> n
                    else d * 2 ^ 53 \<le> n * 2 ^ nat (- e0))
                then e0 + 1 else e0)
      in max e1 (- 1074))"

text \<open>
  \<open>round_binary64 n d\<close> is the binary64 number nearest to the rational \<open>n / d\<close> (with
  \<open>0 < d\<close>), as significand and exponent; \<open>None\<close> when the rounded value is beyond the
  largest finite number.
\<close>

definition round_binary64 :: "nat \<Rightarrow> nat \<Rightarrow> (nat \<times> int) option" where
  "round_binary64 n d =
     (if n = 0 then Some (0, 0)
      else
        let e = binary_exponent n d;
            m = scaled n d e;
            (m', e') = (if m = 2 ^ 53 then (2 ^ 52, e + 1) else (m, e))
        in if 971 < e' then None
           else if m' = 0 then Some (0, 0)
           else Some (m', e'))"

text \<open>\<^verbatim>\<open>float(i)\<close> for a Python \<^verbatim>\<open>int\<close>: \<^verbatim>\<open>OverflowError\<close> when \<open>i\<close> is too large.\<close>

definition float_of_int :: "int \<Rightarrow> exn + pyfloat" where
  "float_of_int i =
     (case round_binary64 (nat \<bar>i\<bar>) 1 of
        None \<Rightarrow> Inl OverflowError
      | Some (m, e) \<Rightarrow> Inr (Finite (i < 0) m e))"

subsection \<open>\<^verbatim>\<open>float(s)\<close> for a string\<close>

definition is_digit :: "char \<Rightarrow> bool" where
  "is_digit c \<longleftrightarrow> (48::nat) \<le> of_char c \<and> of_char c \<le> (57::nat)"

definition digit_value :: "char \<Rightarrow> nat" where
  "digit_value c = of_char c - (48::nat)"

definition nat_of_digits :: "string \<Rightarrow> nat" where
  "nat_of_digits ds = foldl (\<lambda>acc c. 10 * acc + digit_value c) 0 ds"

text \<open>
  The characters that \<^verbatim>\<open>float\<close> strips at both ends: the ASCII white space, and the two
  white-space code points between 128 and 255 (next line, no-break space), which CPython
  replaces by a space before parsing.
\<close>

definition is_space :: "char \<Rightarrow> bool" where
  "is_space c \<longleftrightarrow>
     c \<in> {CHR 0x09, CHR 0x0A, CHR 0x0B, CHR 0x0C, CHR 0x0D, CHR 0x20, CHR 0x85, CHR 0xA0}"

definition strip :: "string \<Rightarrow> string" where
  "strip s = rev (dropWhile is_space (rev (dropWhile is_space s)))"

text \<open>
  An underscore is accepted only between two digits (PEP 515); the accepted ones are
  removed before the number is read.
\<close>

fun underscores_ok :: "char \<Rightarrow> string \<Rightarrow> bool" where
  "underscores_ok prev [] = (prev \<noteq> CHR ''_'')"
| "underscores_ok prev (c # cs) =
     ((if c = CHR ''_'' then is_digit prev
       else \<not> (prev = CHR ''_'' \<and> \<not> is_digit c))
      \<and> underscores_ok c cs)"

definition to_lower :: "char \<Rightarrow> char" where
  "to_lower c =
     (if (65::nat) \<le> of_char c \<and> of_char c \<le> (90::nat) then char_of (of_char c + (32::nat)) else c)"

text \<open>An optional sign: the flag is \<open>True\<close> for \<^verbatim>\<open>-\<close>.\<close>

fun split_sign :: "string \<Rightarrow> bool \<times> string" where
  "split_sign (c # cs) =
     (if c = CHR ''-'' then (True, cs)
      else if c = CHR ''+'' then (False, cs)
      else (False, c # cs))"
| "split_sign [] = (False, [])"

text \<open>
  The exponent part of a decimal literal: nothing, or \<^verbatim>\<open>e\<close>, an optional sign and at
  least one digit.
\<close>

definition parse_exponent :: "string \<Rightarrow> int option" where
  "parse_exponent s =
     (case s of
        [] \<Rightarrow> Some 0
      | c # cs \<Rightarrow>
          if c = CHR ''e'' \<or> c = CHR ''E'' then
            (let (neg, ds) = split_sign cs
             in if ds \<noteq> [] \<and> list_all is_digit ds
                then Some (if neg then - int (nat_of_digits ds) else int (nat_of_digits ds))
                else None)
          else None)"

text \<open>
  A decimal literal \<^verbatim>\<open>digits [. digits] [exponent]\<close> with at least one digit before the
  exponent; the result \<open>(n, k)\<close> stands for \<open>n * 10\<^sup>k\<close>.
\<close>

definition parse_decimal :: "string \<Rightarrow> (nat \<times> int) option" where
  "parse_decimal s =
     (let ip = takeWhile is_digit s;
          r1 = dropWhile is_digit s;
          has_point = (r1 \<noteq> [] \<and> hd r1 = CHR ''.'');
          fp = (if has_point then takeWhile is_digit (tl r1) else []);
          r2 = (if has_point then dropWhile is_digit (tl r1) else r1)
      in if ip = [] \<and> fp = [] then None
         else (case parse_exponent r2 of
                 None \<Rightarrow> None
               | Some ex \<Rightarrow> Some (nat_of_digits (ip @ fp), ex - int (length fp))))"

text \<open>The value \<open>n * 10\<^sup>k\<close> as a binary64 number; a value too large becomes infinity.\<close>

definition decimal_to_float :: "bool \<Rightarrow> nat \<Rightarrow> int \<Rightarrow> pyfloat" where
  "decimal_to_float neg n k =
     (case (if 0 \<le> k then round_binary64 (n * 10 ^ nat k) 1
            else round_binary64 n (10 ^ nat (- k))) of
        None \<Rightarrow> Infinity neg
      | Some (m, e) \<Rightarrow> Finite neg m e)"

definition float_of_string :: "string \<Rightarrow> pyfloat option" where
  "float_of_string s =
     (if \<not> underscores_ok (CHR 0x00) s then None
      else
        let (neg, body) = split_sign (strip (filter (\<lambda>c. c \<noteq> CHR ''_'') s));
            low = map to_lower body
        in if low = ''inf'' \<or> low = ''infinity'' then Some (Infinity neg)
           else if low = ''nan'' then Some NaN
           else (case parse_decimal body of
                   None \<Rightarrow> None
                 | Some (n, k) \<Rightarrow> Some (decimal_to_float neg n k)))"

subsection \<open>The format specification \<^verbatim>\<open>.2f\<close>\<close>

definition digit_char :: "nat \<Rightarrow> char" where
  "digit_char d = char_of (48 + d)"

fun string_of_nat :: "nat \<Rightarrow> string" where
  "string_of_nat n =
     (if n < 10 then [digit_char n] else string_of_nat (n div 10) @ [digit_char (n mod 10)])"

declare string_of_nat.simps [simp del]

text \<open>\<open>fixed2 h\<close> prints the number of hundredths \<open>h\<close> with two decimals.\<close>

definition fixed2 :: "nat \<Rightarrow> string" where
  "fixed2 h = string_of_nat (h div 100) @ ''.'' @ [digit_char (h mod 100 div 10), digit_char (h mod 10)]"

text \<open>
  \<^verbatim>\<open>format(x, ".2f")\<close> for a float: the exact value is rounded to two decimals, ties to
  even; the sign is printed also when the rounded value is zero.
\<close>

definition format_2f :: "pyfloat \<Rightarrow> string" where
  "format_2f x =
     (case x of
        Finite neg m e \<Rightarrow> (if neg then ''-'' else '''') @ fixed2 (scaled (100 * m) 1 (- e))
      | Infinity neg \<Rightarrow> (if neg then ''-inf'' else ''inf'')
      | NaN \<Rightarrow> ''nan'')"

text \<open>
  A number in the program is a float, or the \<^verbatim>\<open>int\<close> literal \<^verbatim>\<open>0\<close> of the two conditional
  expressions. \<^verbatim>\<open>format(i, ".2f")\<close> for an \<^verbatim>\<open>int\<close> converts it to a float first.
\<close>

datatype pynum = PyInt int | PyFloat pyfloat

fun and_then :: "exn + 'a \<Rightarrow> ('a \<Rightarrow> exn + 'b) \<Rightarrow> exn + 'b" where
  "and_then (Inl e) f = Inl e"
| "and_then (Inr x) f = f x"

definition format_spec_2f :: "pynum \<Rightarrow> exn + string" where
  "format_spec_2f x =
     (case x of
        PyFloat f \<Rightarrow> Inr (format_2f f)
      | PyInt i \<Rightarrow> and_then (float_of_int i) (\<lambda>f. Inr (format_2f f)))"

subsection \<open>JSON documents\<close>

text \<open>
  What \<^verbatim>\<open>response.json()\<close> returns: \<^verbatim>\<open>None\<close>, a \<^verbatim>\<open>bool\<close>, an \<^verbatim>\<open>int\<close>, a \<^verbatim>\<open>float\<close>, a
  \<^verbatim>\<open>str\<close>, a \<^verbatim>\<open>list\<close> or a \<^verbatim>\<open>dict\<close> with string keys. A \<^verbatim>\<open>dict\<close> is an association list
  read through \<^const>\<open>map_of\<close>.
\<close>

datatype json =
    JNull
  | JBool bool
  | JInt int
  | JFloat pyfloat
  | JString string
  | JArray "json list"
  | JObject "(string \<times> json) list"

text \<open>\<^verbatim>\<open>float(v)\<close>: a \<^verbatim>\<open>bool\<close> is an \<^verbatim>\<open>int\<close>; \<^verbatim>\<open>None\<close>, lists and dicts are refused.\<close>

definition py_float :: "json \<Rightarrow> exn + pyfloat" where
  "py_float v =
     (case v of
        JString s \<Rightarrow> (case float_of_string s of None \<Rightarrow> Inl ValueError | Some x \<Rightarrow> Inr x)
      | JFloat x \<Rightarrow> Inr x
      | JInt i \<Rightarrow> float_of_int i
      | JBool b \<Rightarrow> float_of_int (if b then 1 else 0)
      | _ \<Rightarrow> Inl TypeError)"

text \<open>
  \<^verbatim>\<open>k in v\<close> for a string \<open>k\<close>: a key of a dict, an element of a list, a substring of a
  string; any other value is not iterable.
\<close>

definition py_contains :: "string \<Rightarrow> json \<Rightarrow> exn + bool" where
  "py_contains k v =
     (case v of
        JObject d \<Rightarrow> Inr (map_of d k \<noteq> None)
      | JArray xs \<Rightarrow> Inr (JString k \<in> set xs)
      | JString s \<Rightarrow> Inr (sublist k s)
      | _ \<Rightarrow> Inl TypeError)"

text \<open>\<^verbatim>\<open>v[k]\<close> for a string \<open>k\<close>: only a dict can be subscripted by a string.\<close>

definition py_getitem :: "json \<Rightarrow> string \<Rightarrow> exn + json" where
  "py_getitem v k =
     (case v of
        JObject d \<Rightarrow> (case map_of d k of None \<Rightarrow> Inl (KeyError k) | Some x \<Rightarrow> Inr x)
      | _ \<Rightarrow> Inl TypeError)"

text \<open>
  The items that \<^verbatim>\<open>for token in v[:5]\<close> visits: the first five elements of a list, the
  first five characters of a string; no other JSON value can be sliced (a dict takes
  the slice for a key and raises: \<^verbatim>\<open>TypeError\<close> before Python 3.12, which is modelled).
\<close>

definition py_slice5 :: "json \<Rightarrow> exn + json list" where
  "py_slice5 v =
     (case v of
        JArray xs \<Rightarrow> Inr (take 5 xs)
      | JString s \<Rightarrow> Inr (map (\<lambda>c. JString [c]) (take 5 s))
      | _ \<Rightarrow> Inl TypeError)"

section \<open>The Analyzer: \<^verbatim>\<open>analyze_token_data\<close>\<close>

record analyzed =
  name :: json
  ca :: json
  description :: string

text \<open>
  \<^verbatim>\<open>price_usd = float(token["priceUsd"]) if "priceUsd" in token else 0\<close>
\<close>

definition price_usd :: "json \<Rightarrow> exn + pynum" where
  "price_usd token =
     and_then (py_contains ''priceUsd'' token) (\<lambda>present.
       if present then
         and_then (py_getitem token ''priceUsd'') (\<lambda>v.
         and_then (py_float v) (\<lambda>x. Inr (PyFloat x)))
       else Inr (PyInt 0))"

text \<open>
  \<^verbatim>\<open>volume_h24 = float(token["volume"]["h24"])
       if "volume" in token and "h24" in token["volume"] else 0\<close>
\<close>

definition volume_h24 :: "json \<Rightarrow> exn + pynum" where
  "volume_h24 token =
     and_then (py_contains ''volume'' token) (\<lambda>has_volume.
       if has_volume then
         and_then (py_getitem token ''volume'') (\<lambda>vol.
         and_then (py_contains ''h24'' vol) (\<lambda>has_h24.
           if has_h24 then
             and_then (py_getitem token ''volume'') (\<lambda>vol'.
             and_then (py_getitem vol' ''h24'') (\<lambda>v.
             and_then (py_float v) (\<lambda>x. Inr (PyFloat x))))
           else Inr (PyInt 0)))
       else Inr (PyInt 0))"

text \<open>
  The body of the loop: the two numbers, then the three entries of the appended dict in
  the order they are written (name, address, description).
\<close>

definition analyze_token :: "json \<Rightarrow> exn + analyzed" where
  "analyze_token token =
     and_then (price_usd token) (\<lambda>price.
     and_then (volume_h24 token) (\<lambda>volume.
     and_then (py_getitem token ''baseToken'') (\<lambda>base.
     and_then (py_getitem base ''name'') (\<lambda>nm.
     and_then (py_getitem token ''baseToken'') (\<lambda>base'.
     and_then (py_getitem base' ''address'') (\<lambda>addr.
     and_then (format_spec_2f price) (\<lambda>p.
     and_then (format_spec_2f volume) (\<lambda>v.
       Inr \<lparr>name = nm, ca = addr,
            description = ''Price: '' @ p @ '' USD, Volume: '' @ v\<rparr>))))))))"

fun analyze_loop :: "json list \<Rightarrow> analyzed list \<Rightarrow> exn + analyzed list" where
  "analyze_loop [] analyzed_data = Inr analyzed_data"
| "analyze_loop (token # rest) analyzed_data =
     and_then (analyze_token token) (\<lambda>r. analyze_loop rest (analyzed_data @ [r]))"

definition analyze_token_data :: "json \<Rightarrow> exn + analyzed list" where
  "analyze_token_data token_data =
     and_then (py_getitem token_data ''pairs'') (\<lambda>pairs.
     and_then (py_slice5 pairs) (\<lambda>tokens.
       analyze_loop tokens []))"


section \<open>The Notifier: \<^verbatim>\<open>send_telegram_message\<close>\<close>

text \<open>
  Everything outside the program is a parameter: the environment variables, the answer
  of the HTTP request, the Telegram library and Python's \<^verbatim>\<open>str\<close> on a value that is not
  a string. A call of \<^verbatim>\<open>bot.send_message\<close> is recorded with its arguments; whether it
  raises may depend on the call and on the calls made before it.
\<close>

record sent =
  sent_token :: string
  sent_chat_id :: string
  sent_text :: string

datatype http_result = Json json | RequestException string | Other exn

record world =
  os_getenv :: "string \<Rightarrow> string option"
  requests_get :: http_result
  new_bot :: "string \<Rightarrow> string option"
  send_message :: "sent list \<Rightarrow> sent \<Rightarrow> string option"
  str_of :: "json \<Rightarrow> string"

text \<open>A replacement field \<^verbatim>\<open>{v}\<close> of an f-string: a \<^verbatim>\<open>str\<close> is inserted as it is.\<close>

definition format_field :: "world \<Rightarrow> json \<Rightarrow> string" where
  "format_field w v = (case v of JString s \<Rightarrow> s | _ \<Rightarrow> str_of w v)"

text \<open>\<^verbatim>\<open>message = f"Token: {token_name}\nCA: {ca}\nDescription: {description}"\<close>\<close>

definition compose_message :: "world \<Rightarrow> json \<Rightarrow> json \<Rightarrow> string \<Rightarrow> string" where
  "compose_message w token_name addr descr =
     ''Token: '' @ format_field w token_name @ ''\<newline>CA: '' @ format_field w addr
       @ ''\<newline>Description: '' @ descr"

definition config_error :: exn where
  "config_error = Exception ''Telegram bot token or chat ID not found in environment variables''"

definition send_failed :: "string \<Rightarrow> exn" where
  "send_failed m = Exception (''Failed to send Telegram message: '' @ m)"

text \<open>
  \<^verbatim>\<open>not v\<close> holds for \<^verbatim>\<open>None\<close> and for the empty string, so the exception of line 38
  is raised unless both variables are set to non-empty strings. The result is the exception raised,
  if any, and the calls of \<^verbatim>\<open>bot.send_message\<close> made so far. The parameters \<^verbatim>\<open>ca\<close> and
  \<^verbatim>\<open>description\<close> are written \<open>addr\<close> and \<open>descr\<close>, apart from the record fields.
\<close>

definition send_telegram_message ::
    "world \<Rightarrow> json \<Rightarrow> json \<Rightarrow> string \<Rightarrow> sent list \<Rightarrow> (exn + unit) \<times> sent list" where
  "send_telegram_message w token_name addr descr calls =
     (case (os_getenv w ''TELEGRAM_BOT_TOKEN'', os_getenv w ''TELEGRAM_CHAT_ID'') of
        (Some bot_token, Some chat_id) \<Rightarrow>
          if bot_token = [] \<or> chat_id = [] then (Inl config_error, calls)
          else (case new_bot w bot_token of
                  Some m \<Rightarrow> (Inl (send_failed m), calls)
                | None \<Rightarrow>
                    let message = compose_message w token_name addr descr;
                        call = \<lparr>sent_token = bot_token, sent_chat_id = chat_id, sent_text = message\<rparr>
                    in (case send_message w calls call of
                          Some m \<Rightarrow> (Inl (send_failed m), calls @ [call])
                        | None \<Rightarrow> (Inr (), calls @ [call])))
      | _ \<Rightarrow> (Inl config_error, calls))"

section \<open>The window: \<^verbatim>\<open>DexscreenerApp.fetch_and_analyze\<close>\<close>

definition fetch_token_data :: "world \<Rightarrow> exn + json" where
  "fetch_token_data w =
     (case requests_get w of
        Json d \<Rightarrow> Inr d
      | RequestException m \<Rightarrow> Inl (Exception (''Failed to fetch token data: '' @ m))
      | Other e \<Rightarrow> Inl e)"

text \<open>
  What the text box shows: nothing yet, \<^verbatim>\<open>str(analyzed_data)\<close>, or
  \<^verbatim>\<open>f"Error: {str(e)}"\<close>.
\<close>

datatype shown = Blank | Records "analyzed list" | ErrorText exn

record window =
  status_label :: string
  text_box :: shown

text \<open>
  \<^verbatim>\<open>for token in analyzed_data: send_telegram_message(token["name"], token["ca"],
  token["description"])\<close>: an exception leaves the loop.
\<close>

fun notify_all :: "world \<Rightarrow> analyzed list \<Rightarrow> sent list \<Rightarrow> (exn + unit) \<times> sent list" where
  "notify_all w [] calls = (Inr (), calls)"
| "notify_all w (token # rest) calls =
     (case send_telegram_message w (name token) (ca token) (description token) calls of
        (Inl e, calls') \<Rightarrow> (Inl e, calls')
      | (Inr u, calls') \<Rightarrow> notify_all w rest calls')"

text \<open>The text sent for a record.\<close>

definition message_of :: "world \<Rightarrow> analyzed \<Rightarrow> string" where
  "message_of w r = compose_message w (name r) (ca r) (description r)"

text \<open>The call of \<^verbatim>\<open>bot.send_message\<close> for a record, with the token and the chat of the run.\<close>

definition call_of :: "world \<Rightarrow> string \<Rightarrow> string \<Rightarrow> analyzed \<Rightarrow> sent" where
  "call_of w tok cid r = \<lparr>sent_token = tok, sent_chat_id = cid, sent_text = message_of w r\<rparr>"

definition on_error :: "exn \<Rightarrow> window \<Rightarrow> window" where
  "on_error e ui = ui\<lparr>status_label := ''Error occurred'', text_box := ErrorText e\<rparr>"

definition fetch_and_analyze :: "world \<Rightarrow> window \<Rightarrow> sent list \<Rightarrow> window \<times> sent list" where
  "fetch_and_analyze w ui calls =
     (let ui1 = ui\<lparr>status_label := ''Fetching token data...''\<rparr>
      in case fetch_token_data w of
           Inl e \<Rightarrow> (on_error e ui1, calls)
         | Inr token_data \<Rightarrow>
             let ui2 = ui1\<lparr>status_label := ''Analyzing token data...''\<rparr>
             in case analyze_token_data token_data of
                  Inl e \<Rightarrow> (on_error e ui2, calls)
                | Inr analyzed_data \<Rightarrow>
                    let ui3 = ui2\<lparr>text_box := Records analyzed_data,
                                  status_label := ''Sending Telegram messages...''\<rparr>
                    in case notify_all w analyzed_data calls of
                         (Inl e, calls') \<Rightarrow> (on_error e ui3, calls')
                       | (Inr u, calls') \<Rightarrow> (ui3\<lparr>status_label := ''Done''\<rparr>, calls'))"


section \<open>The data model of the pairs\<close>

text \<open>
  The shape of a pair in the market data: \<^verbatim>\<open>priceUsd\<close> is optional and a string that
  \<^verbatim>\<open>float\<close> reads; \<^verbatim>\<open>volume.h24\<close> is optional and a number; \<^verbatim>\<open>baseToken.name\<close> and
  \<^verbatim>\<open>baseToken.address\<close> are strings. The program does not check any of this; the
  predicates name the inputs that the theorems below are about.
\<close>

definition price_well_typed :: "(string \<times> json) list \<Rightarrow> bool" where
  "price_well_typed t =
     (case map_of t ''priceUsd'' of
        None \<Rightarrow> True
      | Some (JString s) \<Rightarrow> float_of_string s \<noteq> None
      | Some _ \<Rightarrow> False)"

definition volume_well_typed :: "(string \<times> json) list \<Rightarrow> bool" where
  "volume_well_typed t =
     (case map_of t ''volume'' of
        None \<Rightarrow> True
      | Some (JObject v) \<Rightarrow>
          (case map_of v ''h24'' of
             None \<Rightarrow> True
           | Some (JFloat x) \<Rightarrow> True
           | Some (JInt i) \<Rightarrow> float_of_int i \<noteq> Inl OverflowError
           | Some _ \<Rightarrow> False)
      | Some _ \<Rightarrow> False)"

definition base_token_well_typed :: "(string \<times> json) list \<Rightarrow> bool" where
  "base_token_well_typed t =
     (case map_of t ''baseToken'' of
        Some (JObject b) \<Rightarrow>
          (case (map_of b ''name'', map_of b ''address'') of
             (Some (JString n), Some (JString a)) \<Rightarrow> True
           | _ \<Rightarrow> False)
      | _ \<Rightarrow> False)"

definition RawPair :: "json \<Rightarrow> bool" where
  "RawPair p =
     (case p of
        JObject t \<Rightarrow> price_well_typed t \<and> volume_well_typed t \<and> base_token_well_typed t
      | _ \<Rightarrow> False)"

text \<open>The nested path \<^verbatim>\<open>volume.h24\<close> is absent: no \<^verbatim>\<open>volume\<close>, or a dict without \<^verbatim>\<open>h24\<close>.\<close>

definition h24_absent :: "(string \<times> json) list \<Rightarrow> bool" where
  "h24_absent t =
     (case map_of t ''volume'' of
        None \<Rightarrow> True
      | Some (JObject v) \<Rightarrow> map_of v ''h24'' = None
      | Some _ \<Rightarrow> False)"

text \<open>
  \<^verbatim>\<open>baseToken.name\<close> or \<^verbatim>\<open>baseToken.address\<close> is absent: no \<^verbatim>\<open>baseToken\<close>, or a dict
  without one of the two keys.
\<close>

definition name_or_address_absent :: "(string \<times> json) list \<Rightarrow> bool" where
  "name_or_address_absent t =
     (case map_of t ''baseToken'' of
        None \<Rightarrow> True
      | Some (JObject b) \<Rightarrow> map_of b ''name'' = None \<or> map_of b ''address'' = None
      | Some _ \<Rightarrow> False)"


section \<open>Example inputs\<close>

text \<open>
  A pair with all four fields; the number is the float that the JSON decoder reads from
  \<^verbatim>\<open>98765.4321\<close>.
\<close>

definition example_pair :: "string \<Rightarrow> string \<Rightarrow> json" where
  "example_pair nm price =
     JObject [(''baseToken'', JObject [(''name'', JString nm), (''address'', JString ''0xABC'')]),
              (''priceUsd'', JString price),
              (''volume'', JObject [(''h24'', JFloat (Finite False 6787108813516938 (- 36)))])]"

definition example_response :: "json list \<Rightarrow> json" where
  "example_response ps = JObject [(''pairs'', JArray ps)]"

definition six_pairs :: "json list" where
  "six_pairs = map (\<lambda>nm. example_pair nm ''1234.5'') [''A'', ''B'', ''C'', ''D'', ''E'', ''F'']"

text \<open>A pair without \<^verbatim>\<open>priceUsd\<close> and \<^verbatim>\<open>volume\<close>, and a pair whose \<^verbatim>\<open>baseToken\<close> has no name.\<close>

definition bare_pair :: json where
  "bare_pair =
     JObject [(''baseToken'', JObject [(''name'', JString ''FooCoin''), (''address'', JString ''0xABC'')])]"

definition nameless_pair :: json where
  "nameless_pair =
     JObject [(''baseToken'', JObject [(''address'', JString ''0xDEF'')]),
              (''priceUsd'', JString ''1234.5'')]"


text \<open>
  A world with both variables set, in which the library accepts the token and the
  second call of \<^verbatim>\<open>send_message\<close> raises; and three records to send.
\<close>

definition example_world :: "(string \<Rightarrow> string option) \<Rightarrow> http_result \<Rightarrow> world" where
  "example_world env r =
     \<lparr>os_getenv = env, requests_get = r, new_bot = (\<lambda>tok. None),
      send_message = (\<lambda>calls call. if length calls = 1 then Some ''timed out'' else None),
      str_of = (\<lambda>v. ''?'')\<rparr>"

definition example_env :: "string \<Rightarrow> string option" where
  "example_env = [''TELEGRAM_BOT_TOKEN'' \<mapsto> ''123:abc'', ''TELEGRAM_CHAT_ID'' \<mapsto> ''42'']"

definition example_record :: "string \<Rightarrow> analyzed" where
  "example_record nm =
     \<lparr>name = JString nm, ca = JString ''0xABC'', description = ''Price: 1.00 USD, Volume: 2.00''\<rparr>"

definition blank_window :: window where
  "blank_window = \<lparr>status_label = ''Ready'', text_box = Blank\<rparr>"

section \<open>Properties of the Analyzer\<close>

lemma and_then_Inr_iff: "and_then x f = Inr y \<longleftrightarrow> (\<exists>v. x = Inr v \<and> f v = Inr y)"
  by (cases x) auto

lemma analyze_loop_Inr:
  "analyze_loop ts acc = Inr rs \<longleftrightarrow>
     (\<exists>rs'. rs = acc @ rs' \<and> list_all2 (\<lambda>t r. analyze_token t = Inr r) ts rs')"
proof (induction ts arbitrary: acc)
  case Nil
  show ?case by auto
next
  case (Cons t ts)
  show ?case
  proof (cases "analyze_token t")
    case (Inl e)
    then show ?thesis by (auto simp: list_all2_Cons1)
  next
    case (Inr r)
    then show ?thesis by (auto simp: Cons.IH list_all2_Cons1)
  qed
qed

lemma analyze_loop_all_ok:
  "\<forall>t \<in> set ts. \<exists>r. analyze_token t = Inr r \<Longrightarrow> \<exists>rs. analyze_loop ts acc = Inr rs"
proof (induction ts arbitrary: acc)
  case Nil
  show ?case by simp
next
  case (Cons t ts)
  then obtain r where "analyze_token t = Inr r" by auto
  with Cons show ?case by simp
qed

lemma analyze_loop_first_error:
  "i < length ts \<Longrightarrow> analyze_token (ts ! i) = Inl e \<Longrightarrow>
   \<forall>j<i. \<exists>r. analyze_token (ts ! j) = Inr r \<Longrightarrow> analyze_loop ts acc = Inl e"
proof (induction ts arbitrary: acc i)
  case Nil
  then show ?case by simp
next
  case (Cons t ts)
  show ?case
  proof (cases i)
    case 0
    with Cons.prems show ?thesis by simp
  next
    case (Suc k)
    from Cons.prems(3) Suc obtain r where r: "analyze_token t = Inr r" by fastforce
    have "analyze_loop ts (acc @ [r]) = Inl e"
    proof (rule Cons.IH)
      show "k < length ts" using Cons.prems(1) Suc by simp
      show "analyze_token (ts ! k) = Inl e" using Cons.prems(2) Suc by simp
      show "\<forall>j<k. \<exists>r. analyze_token (ts ! j) = Inr r"
        using Cons.prems(3) Suc by fastforce
    qed
    with r show ?thesis by simp
  qed
qed

lemma analyze_loop_some_error:
  "t \<in> set ts \<Longrightarrow> analyze_token t = Inl e \<Longrightarrow> \<exists>e'. analyze_loop ts acc = Inl e'"
proof (induction ts arbitrary: acc)
  case Nil
  then show ?case by simp
next
  case (Cons a ts)
  show ?case
  proof (cases "analyze_token a")
    case (Inl e')
    then show ?thesis by simp
  next
    case (Inr r)
    with Cons.prems have "t \<in> set ts" by auto
    from Cons.IH[OF this Cons.prems(2)] Inr show ?thesis by simp
  qed
qed

lemma format_zero: "format_spec_2f (PyInt 0) = Inr ''0.00''"
  by code_simp

lemma format_float: "format_spec_2f (PyFloat x) = Inr (format_2f x)"
  by (simp add: format_spec_2f_def)

lemma price_absent: "map_of t ''priceUsd'' = None \<Longrightarrow> price_usd (JObject t) = Inr (PyInt 0)"
  by (simp add: price_usd_def py_contains_def)

lemma price_present:
  "map_of t ''priceUsd'' = Some v \<Longrightarrow>
   price_usd (JObject t) = and_then (py_float v) (\<lambda>x. Inr (PyFloat x))"
  by (simp add: price_usd_def py_contains_def py_getitem_def)

lemma volume_absent: "h24_absent t \<Longrightarrow> volume_h24 (JObject t) = Inr (PyInt 0)"
  by (auto simp: h24_absent_def volume_h24_def py_contains_def py_getitem_def
      split: option.splits json.splits)

lemma volume_present:
  "map_of t ''volume'' = Some (JObject v) \<Longrightarrow> map_of v ''h24'' = Some x \<Longrightarrow>
   volume_h24 (JObject t) = and_then (py_float x) (\<lambda>x. Inr (PyFloat x))"
  by (simp add: volume_h24_def py_contains_def py_getitem_def)


lemma analyze_token_data_pairs:
  "py_getitem token_data ''pairs'' = Inr (JArray pairs) \<Longrightarrow>
   analyze_token_data token_data = analyze_loop (take 5 pairs) []"
  by (simp add: analyze_token_data_def py_slice5_def)

lemma analyze_token_InrD:
  assumes "analyze_token tok = Inr r"
  shows "\<exists>p v b ps vs. price_usd tok = Inr p \<and> volume_h24 tok = Inr v
     \<and> py_getitem tok ''baseToken'' = Inr b
     \<and> py_getitem b ''name'' = Inr (name r) \<and> py_getitem b ''address'' = Inr (ca r)
     \<and> format_spec_2f p = Inr ps \<and> format_spec_2f v = Inr vs
     \<and> description r = ''Price: '' @ ps @ '' USD, Volume: '' @ vs"
proof -
  from assms obtain p v b nm b' ad ps vs where
    "price_usd tok = Inr p" "volume_h24 tok = Inr v"
    "py_getitem tok ''baseToken'' = Inr b" "py_getitem b ''name'' = Inr nm"
    "py_getitem tok ''baseToken'' = Inr b'" "py_getitem b' ''address'' = Inr ad"
    "format_spec_2f p = Inr ps" "format_spec_2f v = Inr vs"
    "r = \<lparr>name = nm, ca = ad, description = ''Price: '' @ ps @ '' USD, Volume: '' @ vs\<rparr>"
    unfolding analyze_token_def and_then_Inr_iff by (elim exE conjE) (simp only: sum.inject)
  moreover from this have "b' = b" by simp
  ultimately show ?thesis by (intro exI[of _ p] exI[of _ v] exI[of _ b] exI[of _ ps] exI[of _ vs]) simp
qed

lemma analyze_token_InrI:
  "price_usd tok = Inr p \<Longrightarrow> volume_h24 tok = Inr v \<Longrightarrow>
   py_getitem tok ''baseToken'' = Inr b \<Longrightarrow>
   py_getitem b ''name'' = Inr nm \<Longrightarrow> py_getitem b ''address'' = Inr ad \<Longrightarrow>
   format_spec_2f p = Inr ps \<Longrightarrow> format_spec_2f v = Inr vs \<Longrightarrow>
   analyze_token tok =
     Inr \<lparr>name = nm, ca = ad, description = ''Price: '' @ ps @ '' USD, Volume: '' @ vs\<rparr>"
  by (simp add: analyze_token_def)

lemma float_of_int_cases: "float_of_int i = Inl OverflowError \<or> (\<exists>x. float_of_int i = Inr x)"
proof (cases "round_binary64 (nat \<bar>i\<bar>) 1")
  case None
  then show ?thesis by (simp add: float_of_int_def)
next
  case (Some me)
  then show ?thesis by (cases me) (simp add: float_of_int_def)
qed

lemma price_well_typed_ok:
  assumes "price_well_typed t"
  shows "\<exists>p ps. price_usd (JObject t) = Inr p \<and> format_spec_2f p = Inr ps"
proof (cases "map_of t ''priceUsd''")
  case None
  then show ?thesis using price_absent format_zero by blast
next
  case (Some v)
  with assms have v: "case v of JString s \<Rightarrow> float_of_string s \<noteq> None | _ \<Rightarrow> False"
    by (simp add: price_well_typed_def)
  then obtain s where s: "v = JString s" by (cases v) simp_all
  with v obtain x where "float_of_string s = Some x" by auto
  with Some s have "price_usd (JObject t) = Inr (PyFloat x)"
    by (simp add: price_present py_float_def)
  then show ?thesis using format_float by blast
qed

lemma numeric_py_float:
  assumes "case x of JFloat f \<Rightarrow> True | JInt i \<Rightarrow> float_of_int i \<noteq> Inl OverflowError | _ \<Rightarrow> False"
  shows "\<exists>f. py_float x = Inr f"
proof (cases x)
  case (JInt i)
  with assms float_of_int_cases[of i] show ?thesis by (auto simp: py_float_def)
next
  case (JFloat f)
  then show ?thesis by (simp add: py_float_def)
qed (use assms in simp_all)

lemma volume_well_typed_ok:
  assumes "volume_well_typed t"
  shows "\<exists>p ps. volume_h24 (JObject t) = Inr p \<and> format_spec_2f p = Inr ps"
proof (cases "map_of t ''volume''")
  case None
  then have "h24_absent t" by (simp add: h24_absent_def)
  then show ?thesis using volume_absent format_zero by blast
next
  case (Some vol)
  with assms have vol: "case vol of JObject v \<Rightarrow>
          (case map_of v ''h24'' of
             None \<Rightarrow> True
           | Some (JFloat x) \<Rightarrow> True
           | Some (JInt i) \<Rightarrow> float_of_int i \<noteq> Inl OverflowError
           | Some _ \<Rightarrow> False) | _ \<Rightarrow> False"
    by (simp add: volume_well_typed_def)
  then obtain v where v: "vol = JObject v" by (cases vol) simp_all
  show ?thesis
  proof (cases "map_of v ''h24''")
    case None
    with Some v have "h24_absent t" by (simp add: h24_absent_def)
    then show ?thesis using volume_absent format_zero by blast
  next
    case (Some x)
    with vol v have "\<exists>f. py_float x = Inr f" by (intro numeric_py_float) simp
    then obtain f where "py_float x = Inr f" ..
    with \<open>map_of t ''volume'' = Some vol\<close> v Some
    have "volume_h24 (JObject t) = Inr (PyFloat f)" by (simp add: volume_present)
    then show ?thesis using format_float by blast
  qed
qed

lemma base_token_well_typedD:
  assumes "base_token_well_typed t"
  shows "\<exists>b nm ad. map_of t ''baseToken'' = Some (JObject b)
     \<and> map_of b ''name'' = Some (JString nm) \<and> map_of b ''address'' = Some (JString ad)"
proof (cases "map_of t ''baseToken''")
  case None
  with assms show ?thesis by (simp add: base_token_well_typed_def)
next
  case (Some bt)
  with assms obtain b where b: "bt = JObject b"
    by (cases bt) (simp_all add: base_token_well_typed_def)
  with assms Some have c: "case (map_of b ''name'', map_of b ''address'') of
             (Some (JString n), Some (JString a)) \<Rightarrow> True
           | _ \<Rightarrow> False"
    by (simp add: base_token_well_typed_def)
  then obtain n where n: "map_of b ''name'' = Some n" by (cases "map_of b ''name''") simp_all
  with c obtain nm where nm: "n = JString nm" by (cases n) simp_all
  from c n nm obtain a where a: "map_of b ''address'' = Some a"
    by (cases "map_of b ''address''") simp_all
  with c n nm obtain ad where "a = JString ad" by (cases a) simp_all
  with Some b n nm a show ?thesis by simp
qed

lemma RawPair_analyzed:
  assumes "RawPair p"
  shows "\<exists>r. analyze_token p = Inr r"
proof -
  from assms obtain t where t: "p = JObject t" by (cases p) (simp_all add: RawPair_def)
  with assms have wt: "price_well_typed t" "volume_well_typed t" "base_token_well_typed t"
    by (simp_all add: RawPair_def)
  from base_token_well_typedD[OF wt(3)] obtain b nm ad where
    m: "map_of t ''baseToken'' = Some (JObject b)"
      "map_of b ''name'' = Some (JString nm)" "map_of b ''address'' = Some (JString ad)"
    by blast
  have g: "py_getitem (JObject t) ''baseToken'' = Inr (JObject b)"
      "py_getitem (JObject b) ''name'' = Inr (JString nm)"
      "py_getitem (JObject b) ''address'' = Inr (JString ad)"
    using m by (simp_all add: py_getitem_def)
  from price_well_typed_ok[OF wt(1)] obtain x xs where
    x: "price_usd (JObject t) = Inr x" "format_spec_2f x = Inr xs" by blast
  from volume_well_typed_ok[OF wt(2)] obtain y ys where
    y: "volume_h24 (JObject t) = Inr y" "format_spec_2f y = Inr ys" by blast
  from analyze_token_InrI[OF x(1) y(1) g x(2) y(2)] t show ?thesis by blast
qed

text \<open>
  C1. When \<^verbatim>\<open>analyze_token_data\<close> returns, it returns \<open>min 5 (length pairs)\<close> records, never
  more than five, and the record at index \<open>i\<close> is the one made from \<open>pairs ! i\<close>: its name
  and address are those of the pair's \<^verbatim>\<open>baseToken\<close>. It does return when the first five
  pairs have the shape of the data model; with more than five pairs it then returns
  exactly five records, for the first five pairs in their order.
\<close>

theorem analyze_token_data_first_five:
  assumes "py_getitem token_data ''pairs'' = Inr (JArray pairs)"
  shows "(\<forall>rs. analyze_token_data token_data = Inr rs \<longrightarrow>
            length rs = min 5 (length pairs) \<and> length rs \<le> 5
            \<and> (\<forall>i<length rs. analyze_token (pairs ! i) = Inr (rs ! i)
                  \<and> (\<exists>b. py_getitem (pairs ! i) ''baseToken'' = Inr b
                        \<and> py_getitem b ''name'' = Inr (name (rs ! i))
                        \<and> py_getitem b ''address'' = Inr (ca (rs ! i)))))
       \<and> ((\<forall>p \<in> set (take 5 pairs). RawPair p) \<longrightarrow>
            (\<exists>rs. analyze_token_data token_data = Inr rs))
       \<and> (5 < length pairs \<and> (\<forall>p \<in> set (take 5 pairs). RawPair p) \<longrightarrow>
            (\<exists>rs. analyze_token_data token_data = Inr rs \<and> length rs = 5
               \<and> (\<forall>i<5. analyze_token (pairs ! i) = Inr (rs ! i))))"
proof -
  have run: "analyze_token_data token_data = analyze_loop (take 5 pairs) []"
    using assms by (rule analyze_token_data_pairs)
  have returned: "length rs = min 5 (length pairs) \<and> length rs \<le> 5
      \<and> (\<forall>i<length rs. analyze_token (pairs ! i) = Inr (rs ! i)
            \<and> (\<exists>b. py_getitem (pairs ! i) ''baseToken'' = Inr b
                  \<and> py_getitem b ''name'' = Inr (name (rs ! i))
                  \<and> py_getitem b ''address'' = Inr (ca (rs ! i))))"
    if "analyze_token_data token_data = Inr rs" for rs
  proof -
    from that run have all2: "list_all2 (\<lambda>t r. analyze_token t = Inr r) (take 5 pairs) rs"
      by (simp add: analyze_loop_Inr)
    then have len: "length rs = min 5 (length pairs)"
      by (auto dest: list_all2_lengthD)
    have "analyze_token (pairs ! i) = Inr (rs ! i)
            \<and> (\<exists>b. py_getitem (pairs ! i) ''baseToken'' = Inr b
                  \<and> py_getitem b ''name'' = Inr (name (rs ! i))
                  \<and> py_getitem b ''address'' = Inr (ca (rs ! i)))" if "i < length rs" for i
    proof -
      have made: "analyze_token (pairs ! i) = Inr (rs ! i)"
        using list_all2_nthD2[OF all2 that] that len by simp
      from analyze_token_InrD[OF made] show ?thesis using made by blast
    qed
    with len show ?thesis by simp
  qed
  have total: "\<exists>rs. analyze_token_data token_data = Inr rs"
    if "\<forall>p \<in> set (take 5 pairs). RawPair p"
    unfolding run using that by (intro analyze_loop_all_ok) (blast dest: RawPair_analyzed)
  have part1: "\<forall>rs. analyze_token_data token_data = Inr rs \<longrightarrow>
            length rs = min 5 (length pairs) \<and> length rs \<le> 5
            \<and> (\<forall>i<length rs. analyze_token (pairs ! i) = Inr (rs ! i)
                  \<and> (\<exists>b. py_getitem (pairs ! i) ''baseToken'' = Inr b
                        \<and> py_getitem b ''name'' = Inr (name (rs ! i))
                        \<and> py_getitem b ''address'' = Inr (ca (rs ! i))))"
    using returned by blast
  have part2: "(\<forall>p \<in> set (take 5 pairs). RawPair p) \<longrightarrow>
            (\<exists>rs. analyze_token_data token_data = Inr rs)"
    using total by blast
  have part3: "5 < length pairs \<and> (\<forall>p \<in> set (take 5 pairs). RawPair p) \<longrightarrow>
            (\<exists>rs. analyze_token_data token_data = Inr rs \<and> length rs = 5
               \<and> (\<forall>i<5. analyze_token (pairs ! i) = Inr (rs ! i)))"
  proof
    assume a: "5 < length pairs \<and> (\<forall>p \<in> set (take 5 pairs). RawPair p)"
    then obtain rs where rs: "analyze_token_data token_data = Inr rs" using total by blast
    from returned[OF rs] a have "length rs = 5" "\<forall>i<5. analyze_token (pairs ! i) = Inr (rs ! i)"
      by simp_all
    with rs show "\<exists>rs. analyze_token_data token_data = Inr rs \<and> length rs = 5
               \<and> (\<forall>i<5. analyze_token (pairs ! i) = Inr (rs ! i))" by blast
  qed
  show ?thesis by (rule conjI[OF part1 conjI[OF part2 part3]])
qed

theorem analyze_token_data_first_five_witness:
  "py_getitem (example_response six_pairs) ''pairs'' = Inr (JArray six_pairs)
   \<and> 5 < length six_pairs
   \<and> list_all RawPair (take 5 six_pairs)
   \<and> (\<exists>rs. analyze_token_data (example_response six_pairs) = Inr rs \<and> length rs = 5
         \<and> (\<forall>i<5. analyze_token (six_pairs ! i) = Inr (rs ! i)))"
proof -
  have h: "py_getitem (example_response six_pairs) ''pairs'' = Inr (JArray six_pairs)"
    by (simp add: example_response_def py_getitem_def)
  have l: "5 < length six_pairs"
    by (simp add: six_pairs_def)
  have t: "list_all RawPair (take 5 six_pairs)"
    by code_simp
  then have "\<forall>p \<in> set (take 5 six_pairs). RawPair p"
    by (simp add: list_all_iff)
  with analyze_token_data_first_five[OF h] l t h show ?thesis by blast
qed

lemma analyze_token_data_nth:
  assumes "py_getitem token_data ''pairs'' = Inr (JArray pairs)"
    and "analyze_token_data token_data = Inr rs"
  shows "length rs = min 5 (length pairs)"
    and "i < length rs \<Longrightarrow> analyze_token (pairs ! i) = Inr (rs ! i)"
proof -
  from assms have all2: "list_all2 (\<lambda>t r. analyze_token t = Inr r) (take 5 pairs) rs"
    by (simp add: analyze_token_data_pairs analyze_loop_Inr)
  then show len: "length rs = min 5 (length pairs)"
    by (auto dest: list_all2_lengthD)
  show "analyze_token (pairs ! i) = Inr (rs ! i)" if "i < length rs"
    using list_all2_nthD2[OF all2 that] that len by simp
qed

lemma nth_in_first_five: "i < min 5 (length pairs) \<Longrightarrow> pairs ! i \<in> set (take 5 pairs)"
  by (metis length_take min.commute nth_mem nth_take min_less_iff_conj)

lemma analyze_token_data_some_error:
  assumes "py_getitem token_data ''pairs'' = Inr (JArray pairs)"
    and "i < min 5 (length pairs)"
    and "analyze_token (pairs ! i) = Inl e"
  shows "\<exists>e'. analyze_token_data token_data = Inl e'"
  using analyze_loop_some_error[OF nth_in_first_five[OF assms(2)] assms(3)]
  by (simp add: analyze_token_data_pairs[OF assms(1)])

lemma analyze_token_data_first_error:
  assumes "py_getitem token_data ''pairs'' = Inr (JArray pairs)"
    and "i < min 5 (length pairs)"
    and "analyze_token (pairs ! i) = Inl e"
    and "\<forall>j<i. RawPair (pairs ! j)"
  shows "analyze_token_data token_data = Inl e"
proof -
  have "analyze_loop (take 5 pairs) [] = Inl e"
  proof (rule analyze_loop_first_error)
    show "i < length (take 5 pairs)" using assms(2) by simp
    show "analyze_token (take 5 pairs ! i) = Inl e" using assms(2,3) by simp
    show "\<forall>j<i. \<exists>r. analyze_token (take 5 pairs ! j) = Inr r"
    proof (intro allI impI)
      fix j assume "j < i"
      with assms(2,4) have "RawPair (take 5 pairs ! j)" by simp
      then show "\<exists>r. analyze_token (take 5 pairs ! j) = Inr r" by (rule RawPair_analyzed)
    qed
  qed
  then show ?thesis by (simp add: analyze_token_data_pairs[OF assms(1)])
qed

lemma unparsable_price_ValueError:
  assumes "map_of t ''priceUsd'' = Some (JString s)" and "float_of_string s = None"
  shows "analyze_token (JObject t) = Inl ValueError"
proof -
  from assms have "price_usd (JObject t) = Inl ValueError"
    by (simp add: price_present py_float_def)
  then show ?thesis by (simp add: analyze_token_def)
qed

text \<open>
  C2 (as amended). A pair among the first five whose \<^verbatim>\<open>priceUsd\<close> is present and is a
  string that \<^verbatim>\<open>float\<close> cannot read makes \<^verbatim>\<open>analyze_token_data\<close> raise: the body of the
  loop raises \<^verbatim>\<open>ValueError\<close> for this pair, the call returns no records, and the
  exception of the call is this \<^verbatim>\<open>ValueError\<close> when the pairs before it have the shape of
  the data model. The default \<open>0\<close> is used only when the key is absent.
\<close>

theorem unparsable_price_raises:
  assumes "py_getitem token_data ''pairs'' = Inr (JArray pairs)"
    and "i < min 5 (length pairs)"
    and "pairs ! i = JObject t"
    and "map_of t ''priceUsd'' = Some (JString s)"
    and "float_of_string s = None"
  shows "analyze_token (pairs ! i) = Inl ValueError
       \<and> (\<exists>e. analyze_token_data token_data = Inl e)
       \<and> ((\<forall>j<i. RawPair (pairs ! j)) \<longrightarrow> analyze_token_data token_data = Inl ValueError)"
proof -
  have e: "analyze_token (pairs ! i) = Inl ValueError"
    using assms(3-5) by (simp add: unparsable_price_ValueError)
  moreover have "\<exists>e. analyze_token_data token_data = Inl e"
    using assms(1,2) e by (rule analyze_token_data_some_error)
  moreover have "(\<forall>j<i. RawPair (pairs ! j)) \<longrightarrow> analyze_token_data token_data = Inl ValueError"
    using analyze_token_data_first_error[OF assms(1,2) e] by blast
  ultimately show ?thesis by blast
qed

text \<open>
  The claim as stated fails: the price \<^verbatim>\<open>"abc"\<close> is not read as \<open>0\<close>, the call raises.
\<close>

theorem unparsable_price_counterexample:
  "float_of_string ''abc'' = None
   \<and> analyze_token_data (example_response [example_pair ''FooCoin'' ''abc'']) = Inl ValueError"
  by code_simp

theorem unparsable_price_raises_witness:
  "py_getitem (example_response [example_pair ''A'' ''1234.5'', example_pair ''B'' ''12,5'']) ''pairs''
     = Inr (JArray [example_pair ''A'' ''1234.5'', example_pair ''B'' ''12,5''])
   \<and> float_of_string ''12,5'' = None
   \<and> RawPair (example_pair ''A'' ''1234.5'')
   \<and> analyze_token_data (example_response [example_pair ''A'' ''1234.5'', example_pair ''B'' ''12,5''])
       = Inl ValueError"
proof -
  let ?ps = "[example_pair ''A'' ''1234.5'', example_pair ''B'' ''12,5'']"
  have h: "py_getitem (example_response ?ps) ''pairs'' = Inr (JArray ?ps)"
    by (simp add: example_response_def py_getitem_def)
  have i: "(1::nat) < min 5 (length ?ps)" by simp
  have p: "?ps ! 1 = JObject [(''baseToken'', JObject [(''name'', JString ''B''), (''address'', JString ''0xABC'')]),
              (''priceUsd'', JString ''12,5''),
              (''volume'', JObject [(''h24'', JFloat (Finite False 6787108813516938 (- 36)))])]"
    by (simp add: example_pair_def)
  have m: "map_of [(''baseToken'', JObject [(''name'', JString ''B''), (''address'', JString ''0xABC'')]),
              (''priceUsd'', JString ''12,5''),
              (''volume'', JObject [(''h24'', JFloat (Finite False 6787108813516938 (- 36)))])] ''priceUsd''
            = Some (JString ''12,5'')" by simp
  have f: "float_of_string ''12,5'' = None" by code_simp
  have r: "RawPair (example_pair ''A'' ''1234.5'')" by code_simp
  then have "\<forall>j<1. RawPair (?ps ! j)" by simp
  with unparsable_price_raises[OF h i p m f] h f r show ?thesis by blast
qed












lemma float_of_string_98765_4321:
  "float_of_string ''98765.4321'' = Some (Finite False 6787108813516938 (- 36))"
  by code_simp

lemma float_of_string_1234_5:
  "float_of_string ''1234.5'' = Some (Finite False 5429388417957888 (- 42))"
  by code_simp

lemma format_2f_1234_5: "format_2f (Finite False 5429388417957888 (- 42)) = ''1234.50''"
  by code_simp

lemma format_2f_98765_4321: "format_2f (Finite False 6787108813516938 (- 36)) = ''98765.43''"
  by code_simp

lemma analyze_token_1234_5:
  assumes "map_of t ''priceUsd'' = Some (JString ''1234.5'')"
    and "map_of t ''volume'' = Some (JObject v)"
    and "map_of v ''h24'' = Some (JFloat x)"
    and "float_of_string ''98765.4321'' = Some x"
    and "map_of t ''baseToken'' = Some (JObject b)"
    and "map_of b ''name'' = Some nm"
    and "map_of b ''address'' = Some ad"
  shows "analyze_token (JObject t) =
           Inr \<lparr>name = nm, ca = ad, description = ''Price: 1234.50 USD, Volume: 98765.43''\<rparr>"
proof -
  from assms(4) have x: "x = Finite False 6787108813516938 (- 36)"
    by (simp add: float_of_string_98765_4321)
  have p: "price_usd (JObject t) = Inr (PyFloat (Finite False 5429388417957888 (- 42)))"
    using assms(1) by (simp add: price_present py_float_def float_of_string_1234_5)
  have v: "volume_h24 (JObject t) = Inr (PyFloat (Finite False 6787108813516938 (- 36)))"
    using assms(2,3) x by (simp add: volume_present py_float_def)
  have g: "py_getitem (JObject t) ''baseToken'' = Inr (JObject b)"
      "py_getitem (JObject b) ''name'' = Inr nm" "py_getitem (JObject b) ''address'' = Inr ad"
    using assms(5-7) by (simp_all add: py_getitem_def)
  have fp: "format_spec_2f (PyFloat (Finite False 5429388417957888 (- 42))) = Inr ''1234.50''"
    by (simp add: format_float format_2f_1234_5)
  have fv: "format_spec_2f (PyFloat (Finite False 6787108813516938 (- 36))) = Inr ''98765.43''"
    by (simp add: format_float format_2f_98765_4321)
  from analyze_token_InrI[OF p v g fp fv] show ?thesis by simp
qed

text \<open>
  C6. A pair with \<^verbatim>\<open>priceUsd = "1234.5"\<close>, with \<^verbatim>\<open>volume.h24\<close> the float read from
  \<^verbatim>\<open>98765.4321\<close>, and with a name and an address gives the description
  \<^verbatim>\<open>Price: 1234.50 USD, Volume: 98765.43\<close>: as the only pair of a response, and at its
  index in every list of records that \<^verbatim>\<open>analyze_token_data\<close> returns.
\<close>

theorem description_two_decimals:
  assumes "map_of t ''priceUsd'' = Some (JString ''1234.5'')"
    and "map_of t ''volume'' = Some (JObject v)"
    and "map_of v ''h24'' = Some (JFloat x)"
    and "float_of_string ''98765.4321'' = Some x"
    and "map_of t ''baseToken'' = Some (JObject b)"
    and "map_of b ''name'' = Some nm"
    and "map_of b ''address'' = Some ad"
  shows "analyze_token_data (JObject [(''pairs'', JArray [JObject t])]) =
           Inr [\<lparr>name = nm, ca = ad, description = ''Price: 1234.50 USD, Volume: 98765.43''\<rparr>]
       \<and> (\<forall>token_data pairs rs i.
             py_getitem token_data ''pairs'' = Inr (JArray pairs)
             \<and> analyze_token_data token_data = Inr rs \<and> i < length rs \<and> pairs ! i = JObject t
             \<longrightarrow> description (rs ! i) = ''Price: 1234.50 USD, Volume: 98765.43'')"
proof -
  note one = analyze_token_1234_5[OF assms]
  have "py_getitem (JObject [(''pairs'', JArray [JObject t])]) ''pairs'' = Inr (JArray [JObject t])"
    by (simp add: py_getitem_def)
  then have single: "analyze_token_data (JObject [(''pairs'', JArray [JObject t])]) =
           Inr [\<lparr>name = nm, ca = ad, description = ''Price: 1234.50 USD, Volume: 98765.43''\<rparr>]"
    by (simp add: analyze_token_data_pairs one)
  have "description (rs ! i) = ''Price: 1234.50 USD, Volume: 98765.43''"
    if "py_getitem token_data ''pairs'' = Inr (JArray pairs)"
      "analyze_token_data token_data = Inr rs" "i < length rs" "pairs ! i = JObject t"
    for token_data pairs rs i
  proof -
    from analyze_token_data_nth(2)[OF that(1,2,3)] that(4) one
    have "rs ! i = \<lparr>name = nm, ca = ad, description = ''Price: 1234.50 USD, Volume: 98765.43''\<rparr>"
      by simp
    then show ?thesis by simp
  qed
  with single show ?thesis by blast
qed

theorem description_two_decimals_witness:
  "float_of_string ''98765.4321'' = Some (Finite False 6787108813516938 (- 36))
   \<and> analyze_token_data (example_response [example_pair ''FooCoin'' ''1234.5'']) =
       Inr [\<lparr>name = JString ''FooCoin'', ca = JString ''0xABC'',
             description = ''Price: 1234.50 USD, Volume: 98765.43''\<rparr>]"
proof -
  let ?v = "[(''h24'', JFloat (Finite False 6787108813516938 (- 36)))]"
  let ?b = "[(''name'', JString ''FooCoin''), (''address'', JString ''0xABC'')]"
  let ?t = "[(''baseToken'', JObject ?b), (''priceUsd'', JString ''1234.5''), (''volume'', JObject ?v)]"
  have f: "float_of_string ''98765.4321'' = Some (Finite False 6787108813516938 (- 36))"
    by code_simp
  have "map_of ?t ''priceUsd'' = Some (JString ''1234.5'')"
    and "map_of ?t ''volume'' = Some (JObject ?v)"
    and "map_of ?v ''h24'' = Some (JFloat (Finite False 6787108813516938 (- 36)))"
    and "map_of ?t ''baseToken'' = Some (JObject ?b)"
    and "map_of ?b ''name'' = Some (JString ''FooCoin'')"
    and "map_of ?b ''address'' = Some (JString ''0xABC'')"
    by simp_all
  from description_two_decimals[OF this(1,2,3) f this(4,5,6)] f
  show ?thesis by (simp add: example_response_def example_pair_def)
qed

lemma absent_field_not_analyzed:
  assumes "name_or_address_absent t"
  shows "\<exists>e. analyze_token (JObject t) = Inl e"
proof (cases "analyze_token (JObject t)")
  case (Inl e)
  then show ?thesis by blast
next
  case (Inr r)
  from analyze_token_InrD[OF Inr] obtain b where
    b: "py_getitem (JObject t) ''baseToken'' = Inr b"
       "py_getitem b ''name'' = Inr (name r)" "py_getitem b ''address'' = Inr (ca r)" by blast
  from b(1) have t: "map_of t ''baseToken'' = Some b"
    by (cases "map_of t ''baseToken''") (simp_all add: py_getitem_def)
  from b(2) obtain d where d: "b = JObject d" by (cases b) (simp_all add: py_getitem_def)
  from b(2) d have n: "map_of d ''name'' \<noteq> None"
    by (cases "map_of d ''name''") (simp_all add: py_getitem_def)
  from b(3) d have a: "map_of d ''address'' \<noteq> None"
    by (cases "map_of d ''address''") (simp_all add: py_getitem_def)
  from assms t d n a have False by (simp add: name_or_address_absent_def)
  then show ?thesis ..
qed

lemma absent_field_KeyError:
  assumes "name_or_address_absent t" and "price_well_typed t" and "volume_well_typed t"
  shows "\<exists>k \<in> {''baseToken'', ''name'', ''address''}. analyze_token (JObject t) = Inl (KeyError k)"
proof -
  from price_well_typed_ok[OF assms(2)] obtain p where p: "price_usd (JObject t) = Inr p" by blast
  from volume_well_typed_ok[OF assms(3)] obtain v where v: "volume_h24 (JObject t) = Inr v" by blast
  show ?thesis
  proof (cases "map_of t ''baseToken''")
    case None
    then have "analyze_token (JObject t) = Inl (KeyError ''baseToken'')"
      using p v by (simp add: analyze_token_def py_getitem_def)
    then show ?thesis by blast
  next
    case (Some bt)
    with assms(1) obtain d where d: "bt = JObject d"
      by (cases bt) (simp_all add: name_or_address_absent_def)
    with assms(1) Some have ab: "map_of d ''name'' = None \<or> map_of d ''address'' = None"
      by (simp add: name_or_address_absent_def)
    show ?thesis
    proof (cases "map_of d ''name''")
      case None
      then have "analyze_token (JObject t) = Inl (KeyError ''name'')"
        using p v Some d by (simp add: analyze_token_def py_getitem_def)
      then show ?thesis by blast
    next
      case (Some nm)
      with ab have "map_of d ''address'' = None" by simp
      then have "analyze_token (JObject t) = Inl (KeyError ''address'')"
        using p v \<open>map_of t ''baseToken'' = Some bt\<close> d Some by (simp add: analyze_token_def py_getitem_def)
      then show ?thesis by blast
    qed
  qed
qed

text \<open>
  C7. A pair among the first five without \<^verbatim>\<open>baseToken.name\<close> or \<^verbatim>\<open>baseToken.address\<close>
  makes \<^verbatim>\<open>analyze_token_data\<close> raise: no default is put in its place and no records are
  returned. The exception is the \<^verbatim>\<open>KeyError\<close> of the missing key when the numbers of the
  pair and the pairs before it have the shape of the data model.
\<close>

theorem missing_name_or_address_raises:
  assumes "py_getitem token_data ''pairs'' = Inr (JArray pairs)"
    and "i < min 5 (length pairs)"
    and "pairs ! i = JObject t"
    and "name_or_address_absent t"
  shows "(\<exists>e. analyze_token_data token_data = Inl e)
       \<and> (price_well_typed t \<and> volume_well_typed t \<and> (\<forall>j<i. RawPair (pairs ! j)) \<longrightarrow>
            (\<exists>k \<in> {''baseToken'', ''name'', ''address''}.
               analyze_token_data token_data = Inl (KeyError k)))"
proof -
  from absent_field_not_analyzed[OF assms(4)] assms(3)
  obtain e where "analyze_token (pairs ! i) = Inl e" by auto
  from analyze_token_data_some_error[OF assms(1,2) this]
  have fails: "\<exists>e. analyze_token_data token_data = Inl e" .
  have "\<exists>k \<in> {''baseToken'', ''name'', ''address''}. analyze_token_data token_data = Inl (KeyError k)"
    if wt: "price_well_typed t" "volume_well_typed t" and before: "\<forall>j<i. RawPair (pairs ! j)"
  proof -
    from absent_field_KeyError[OF assms(4) wt] assms(3)
    obtain k where k: "k \<in> {''baseToken'', ''name'', ''address''}"
        "analyze_token (pairs ! i) = Inl (KeyError k)" by auto
    from analyze_token_data_first_error[OF assms(1,2) k(2) before] k(1)
    show ?thesis by blast
  qed
  with fails show ?thesis by blast
qed

theorem missing_name_or_address_raises_witness:
  "name_or_address_absent
     [(''baseToken'', JObject [(''address'', JString ''0xDEF'')]), (''priceUsd'', JString ''1234.5'')]
   \<and> RawPair (example_pair ''A'' ''1234.5'')
   \<and> (\<exists>k \<in> {''baseToken'', ''name'', ''address''}.
         analyze_token_data (example_response [example_pair ''A'' ''1234.5'', nameless_pair])
           = Inl (KeyError k))"
proof -
  let ?t = "[(''baseToken'', JObject [(''address'', JString ''0xDEF'')]), (''priceUsd'', JString ''1234.5'')]"
  let ?ps = "[example_pair ''A'' ''1234.5'', nameless_pair]"
  have h: "py_getitem (example_response ?ps) ''pairs'' = Inr (JArray ?ps)"
    by (simp add: example_response_def py_getitem_def)
  have i: "(1::nat) < min 5 (length ?ps)" by simp
  have p: "?ps ! 1 = JObject ?t" by (simp add: nameless_pair_def)
  have a: "name_or_address_absent ?t" by (simp add: name_or_address_absent_def)
  have wp: "price_well_typed ?t" by (simp add: price_well_typed_def float_of_string_1234_5)
  have wv: "volume_well_typed ?t" by (simp add: volume_well_typed_def)
  have r: "RawPair (example_pair ''A'' ''1234.5'')" by code_simp
  then have "\<forall>j<1. RawPair (?ps ! j)" by simp
  with missing_name_or_address_raises[OF h i p a] wp wv a r show ?thesis by blast
qed


section \<open>Properties of the Notifier and of the window\<close>

lemma send_config_error:
  assumes "\<not> (\<exists>tok cid. os_getenv w ''TELEGRAM_BOT_TOKEN'' = Some tok
              \<and> os_getenv w ''TELEGRAM_CHAT_ID'' = Some cid \<and> tok \<noteq> [] \<and> cid \<noteq> [])"
  shows "send_telegram_message w nm ad d calls = (Inl config_error, calls)"
proof (cases "os_getenv w ''TELEGRAM_BOT_TOKEN''")
  case None
  then show ?thesis by (simp add: send_telegram_message_def)
next
  case tok: (Some tok)
  show ?thesis
  proof (cases "os_getenv w ''TELEGRAM_CHAT_ID''")
    case None
    with tok show ?thesis by (simp add: send_telegram_message_def)
  next
    case (Some cid)
    with tok assms have "tok = [] \<or> cid = []" by simp
    with tok Some show ?thesis by (simp add: send_telegram_message_def)
  qed
qed

lemma send_configured:
  assumes "os_getenv w ''TELEGRAM_BOT_TOKEN'' = Some tok"
    and "os_getenv w ''TELEGRAM_CHAT_ID'' = Some cid"
    and "tok \<noteq> []" and "cid \<noteq> []"
  shows "send_telegram_message w nm ad d calls =
     (case new_bot w tok of
        Some m \<Rightarrow> (Inl (send_failed m), calls)
      | None \<Rightarrow>
          (case send_message w calls
                  \<lparr>sent_token = tok, sent_chat_id = cid, sent_text = compose_message w nm ad d\<rparr> of
             Some m \<Rightarrow> (Inl (send_failed m),
                        calls @ [\<lparr>sent_token = tok, sent_chat_id = cid,
                                   sent_text = compose_message w nm ad d\<rparr>])
           | None \<Rightarrow> (Inr (),
                      calls @ [\<lparr>sent_token = tok, sent_chat_id = cid,
                                 sent_text = compose_message w nm ad d\<rparr>])))"
  using assms by (simp add: send_telegram_message_def Let_def split: option.splits)

lemma send_calls:
  assumes "send_telegram_message w nm ad d calls = (res, calls')"
  shows "(calls' = calls \<and> res \<noteq> Inr ())
       \<or> (\<exists>c. calls' = calls @ [c] \<and> sent_text c = compose_message w nm ad d)"
proof (cases "\<exists>tok cid. os_getenv w ''TELEGRAM_BOT_TOKEN'' = Some tok
              \<and> os_getenv w ''TELEGRAM_CHAT_ID'' = Some cid \<and> tok \<noteq> [] \<and> cid \<noteq> []")
  case False
  from send_config_error[OF this, of nm ad d calls] assms show ?thesis by auto
next
  case True
  then obtain tok cid where e: "os_getenv w ''TELEGRAM_BOT_TOKEN'' = Some tok"
      "os_getenv w ''TELEGRAM_CHAT_ID'' = Some cid" "tok \<noteq> []" "cid \<noteq> []" by blast
  show ?thesis
    using assms unfolding send_configured[OF e]
    by (auto split: option.splits)
qed

lemma notify_all_calls:
  "notify_all w rs calls = (res, calls') \<Longrightarrow>
   \<exists>k new. k \<le> length rs \<and> calls' = calls @ new
      \<and> map sent_text new = map (message_of w) (take k rs)
      \<and> (res = Inr () \<longrightarrow> k = length rs)"
proof (induction rs arbitrary: calls)
  case Nil
  then show ?case by simp
next
  case (Cons r rest)
  obtain res1 c1 where s: "send_telegram_message w (name r) (ca r) (description r) calls = (res1, c1)"
    by (cases "send_telegram_message w (name r) (ca r) (description r) calls") blast
  note sc = send_calls[OF s]
  show ?case
  proof (cases res1)
    case (Inl e)
    with Cons.prems s have fin: "res = Inl e" "calls' = c1" by simp_all
    from sc show ?thesis
    proof
      assume "c1 = calls \<and> res1 \<noteq> Inr ()"
      with fin have "0 \<le> length (r # rest) \<and> calls' = calls @ []
          \<and> map sent_text [] = map (message_of w) (take 0 (r # rest))
          \<and> (res = Inr () \<longrightarrow> 0 = length (r # rest))" by simp
      then show ?thesis by blast
    next
      assume "\<exists>c. c1 = calls @ [c] \<and> sent_text c = compose_message w (name r) (ca r) (description r)"
      then obtain c where "c1 = calls @ [c]"
          "sent_text c = compose_message w (name r) (ca r) (description r)" by blast
      with fin have "1 \<le> length (r # rest) \<and> calls' = calls @ [c]
          \<and> map sent_text [c] = map (message_of w) (take 1 (r # rest))
          \<and> (res = Inr () \<longrightarrow> 1 = length (r # rest))" by (simp add: message_of_def)
      then show ?thesis by blast
    qed
  next
    case (Inr u)
    with sc obtain c where c: "c1 = calls @ [c]"
        "sent_text c = compose_message w (name r) (ca r) (description r)" by auto
    from Cons.prems s Inr have "notify_all w rest c1 = (res, calls')" by simp
    from Cons.IH[OF this] obtain k new where k: "k \<le> length rest" "calls' = c1 @ new"
        "map sent_text new = map (message_of w) (take k rest)"
        "res = Inr () \<longrightarrow> k = length rest" by blast
    with c have "Suc k \<le> length (r # rest) \<and> calls' = calls @ (c # new)
          \<and> map sent_text (c # new) = map (message_of w) (take (Suc k) (r # rest))
          \<and> (res = Inr () \<longrightarrow> Suc k = length (r # rest))" by (simp add: message_of_def)
    then show ?thesis by blast
  qed
qed

lemma notify_all_append:
  "notify_all w (xs @ ys) calls =
     (case notify_all w xs calls of
        (Inl e, c) \<Rightarrow> (Inl e, c)
      | (Inr u, c) \<Rightarrow> notify_all w ys c)"
proof (induction xs arbitrary: calls)
  case Nil
  show ?case by simp
next
  case (Cons x xs)
  show ?case
  proof (cases "send_telegram_message w (name x) (ca x) (description x) calls")
    case (Pair res1 c1)
    then show ?thesis by (cases res1) (simp_all add: Cons.IH)
  qed
qed

lemma notify_all_stops:
  assumes "N < length rs"
    and "notify_all w (take N rs) calls = (Inr (), cN)"
    and "send_telegram_message w (name (rs ! N)) (ca (rs ! N)) (description (rs ! N)) cN = (Inl e, c')"
  shows "notify_all w rs calls = (Inl e, c')"
proof -
  have "rs = take N rs @ (rs ! N # drop (Suc N) rs)"
    using assms(1) by (simp add: id_take_nth_drop)
  then have "notify_all w rs calls = notify_all w (take N rs @ (rs ! N # drop (Suc N) rs)) calls"
    by simp
  also have "\<dots> = notify_all w (rs ! N # drop (Suc N) rs) cN"
    by (simp add: notify_all_append assms(2))
  also have "\<dots> = (Inl e, c')"
    by (simp add: assms(3))
  finally show ?thesis .
qed

lemma notify_all_config_error:
  assumes "\<not> (\<exists>tok cid. os_getenv w ''TELEGRAM_BOT_TOKEN'' = Some tok
              \<and> os_getenv w ''TELEGRAM_CHAT_ID'' = Some cid \<and> tok \<noteq> [] \<and> cid \<noteq> [])"
  shows "notify_all w rs calls = (if rs = [] then Inr () else Inl config_error, calls)"
  by (cases rs) (simp_all add: send_config_error[OF assms])

lemma fetch_and_analyze_calls:
  assumes "\<And>rs. snd (notify_all w rs calls) = calls"
  shows "snd (fetch_and_analyze w ui calls) = calls"
proof (cases "fetch_token_data w")
  case (Inl e)
  then show ?thesis by (simp add: fetch_and_analyze_def)
next
  case fetched: (Inr token_data)
  show ?thesis
  proof (cases "analyze_token_data token_data")
    case (Inl e)
    with fetched show ?thesis by (simp add: fetch_and_analyze_def)
  next
    case (Inr rs)
    obtain res c where n: "notify_all w rs calls = (res, c)"
      by (cases "notify_all w rs calls") blast
    with assms[of rs] have "c = calls" by simp
    with fetched Inr n show ?thesis
      by (cases res) (simp_all add: fetch_and_analyze_def)
  qed
qed

lemma fetch_and_analyze_notifies:
  assumes "requests_get w = Json token_data" and "analyze_token_data token_data = Inr rs"
  shows "snd (fetch_and_analyze w ui calls) = snd (notify_all w rs calls)"
proof -
  obtain res c where n: "notify_all w rs calls = (res, c)"
    by (cases "notify_all w rs calls") blast
  with assms show ?thesis
    by (cases res) (simp_all add: fetch_and_analyze_def fetch_token_data_def)
qed

text \<open>
  C4. For a response whose \<^verbatim>\<open>pairs\<close> list is empty, \<^verbatim>\<open>analyze_token_data\<close> returns the
  empty list, and a click that fetches this response ends with the status \<^verbatim>\<open>Done\<close>
  without any call of \<^verbatim>\<open>bot.send_message\<close>: the calls made are those made before.
\<close>

theorem empty_pairs_no_notifications:
  assumes "py_getitem token_data ''pairs'' = Inr (JArray [])"
  shows "analyze_token_data token_data = Inr []
       \<and> (requests_get w = Json token_data \<longrightarrow>
            fetch_and_analyze w ui calls =
              (ui\<lparr>status_label := ''Done'', text_box := Records []\<rparr>, calls))"
proof -
  have a: "analyze_token_data token_data = Inr []"
    by (simp add: analyze_token_data_pairs[OF assms])
  then show ?thesis
    by (simp add: fetch_and_analyze_def fetch_token_data_def)
qed

theorem empty_pairs_no_notifications_witness:
  "py_getitem (example_response []) ''pairs'' = Inr (JArray [])
   \<and> analyze_token_data (example_response []) = Inr []
   \<and> fetch_and_analyze (example_world example_env (Json (example_response []))) blank_window []
       = (\<lparr>status_label = ''Done'', text_box = Records []\<rparr>, [])"
proof -
  have h: "py_getitem (example_response []) ''pairs'' = Inr (JArray [])"
    by (simp add: example_response_def py_getitem_def)
  have r: "requests_get (example_world example_env (Json (example_response [])))
             = Json (example_response [])"
    by (simp add: example_world_def)
  from empty_pairs_no_notifications[OF h, of "example_world example_env (Json (example_response []))"
      blank_window "[]"] h r
  show ?thesis by (simp add: blank_window_def)
qed

text \<open>
  C5. For a record whose name and address are strings, the message is the three lines
  \<^verbatim>\<open>Token: name\<close>, \<^verbatim>\<open>CA: address\<close>, \<^verbatim>\<open>Description: description\<close>; for \<^verbatim>\<open>FooCoin\<close>, \<^verbatim>\<open>0xABC\<close>
  and \<^verbatim>\<open>Price: 1.00 USD, Volume: 2.00\<close> it is the text of the claim. With both variables
  set and a bot created, \<^verbatim>\<open>send_telegram_message\<close> calls \<^verbatim>\<open>bot.send_message\<close> once, with
  this text.
\<close>

theorem message_three_lines:
  "compose_message w (JString nm) (JString ad) d =
     ''Token: '' @ nm @ ''\<newline>CA: '' @ ad @ ''\<newline>Description: '' @ d
   \<and> compose_message w (JString ''FooCoin'') (JString ''0xABC'') ''Price: 1.00 USD, Volume: 2.00''
       = ''Token: FooCoin\<newline>CA: 0xABC\<newline>Description: Price: 1.00 USD, Volume: 2.00''
   \<and> (os_getenv w ''TELEGRAM_BOT_TOKEN'' = Some tok \<and> os_getenv w ''TELEGRAM_CHAT_ID'' = Some cid
        \<and> tok \<noteq> [] \<and> cid \<noteq> [] \<and> new_bot w tok = None \<longrightarrow>
        snd (send_telegram_message w (JString nm) (JString ad) d calls) =
          calls @ [\<lparr>sent_token = tok, sent_chat_id = cid,
                     sent_text = ''Token: '' @ nm @ ''\<newline>CA: '' @ ad @ ''\<newline>Description: '' @ d\<rparr>])"
proof -
  have c: "compose_message w (JString nm) (JString ad) d =
     ''Token: '' @ nm @ ''\<newline>CA: '' @ ad @ ''\<newline>Description: '' @ d" for nm ad d
    by (simp add: compose_message_def format_field_def)
  have s: "snd (send_telegram_message w (JString nm) (JString ad) d calls) =
          calls @ [\<lparr>sent_token = tok, sent_chat_id = cid,
                     sent_text = ''Token: '' @ nm @ ''\<newline>CA: '' @ ad @ ''\<newline>Description: '' @ d\<rparr>]"
    if "os_getenv w ''TELEGRAM_BOT_TOKEN'' = Some tok" "os_getenv w ''TELEGRAM_CHAT_ID'' = Some cid"
      "tok \<noteq> []" "cid \<noteq> []" "new_bot w tok = None"
    unfolding send_configured[OF that(1-4)] c using that(5) by (simp split: option.splits)
  have e: "compose_message w (JString ''FooCoin'') (JString ''0xABC'') ''Price: 1.00 USD, Volume: 2.00''
       = ''Token: FooCoin\<newline>CA: 0xABC\<newline>Description: Price: 1.00 USD, Volume: 2.00''"
    unfolding c by simp
  from c[of nm ad d] e s show ?thesis by blast
qed

theorem message_three_lines_witness:
  "snd (send_telegram_message (example_world example_env (Json (example_response [])))
          (JString ''FooCoin'') (JString ''0xABC'') ''Price: 1.00 USD, Volume: 2.00'' [])
     = [\<lparr>sent_token = ''123:abc'', sent_chat_id = ''42'',
         sent_text = ''Token: FooCoin\<newline>CA: 0xABC\<newline>Description: Price: 1.00 USD, Volume: 2.00''\<rparr>]"
proof -
  let ?w = "example_world example_env (Json (example_response []))"
  have "os_getenv ?w ''TELEGRAM_BOT_TOKEN'' = Some ''123:abc''"
    and "os_getenv ?w ''TELEGRAM_CHAT_ID'' = Some ''42''"
    and "''123:abc'' \<noteq> []" and "''42'' \<noteq> []" and "new_bot ?w ''123:abc'' = None"
    by (simp_all add: example_world_def example_env_def)
  with message_three_lines[of ?w "''FooCoin''" "''0xABC''" "''Price: 1.00 USD, Volume: 2.00''"
      "''123:abc''" "''42''" "[]"]
  show ?thesis by simp
qed

lemma notify_all_succeeded_length:
  assumes "notify_all w rs calls = (Inr (), calls')"
  shows "length calls' = length calls + length rs"
proof -
  from notify_all_calls[OF assms] obtain k new where
    k: "calls' = calls @ new" "map sent_text new = map (message_of w) (take k rs)" "k = length rs"
    by blast
  from k(2) have "length new = length (take k rs)" by (metis length_map)
  with k(1,3) show ?thesis by simp
qed

text \<open>
  C8. When \<^verbatim>\<open>TELEGRAM_BOT_TOKEN\<close> or \<^verbatim>\<open>TELEGRAM_CHAT_ID\<close> is unset, \<^verbatim>\<open>send_telegram_message\<close>
  raises the exception of line 38 and the calls of \<^verbatim>\<open>bot.send_message\<close> are those made
  before: none is added. So the loop over the records stops at its first record and the
  whole click adds no call; with at least one record the window shows the error.
\<close>

theorem unset_variable_aborts_notifications:
  assumes "os_getenv w ''TELEGRAM_BOT_TOKEN'' = None \<or> os_getenv w ''TELEGRAM_CHAT_ID'' = None"
  shows "send_telegram_message w nm ad d calls = (Inl config_error, calls)
       \<and> (rs \<noteq> [] \<longrightarrow> notify_all w rs calls = (Inl config_error, calls))
       \<and> snd (notify_all w rs calls) = calls
       \<and> snd (fetch_and_analyze w ui calls) = calls
       \<and> (requests_get w = Json token_data \<and> analyze_token_data token_data = Inr rs \<and> rs \<noteq> [] \<longrightarrow>
            fetch_and_analyze w ui calls =
              (ui\<lparr>status_label := ''Error occurred'', text_box := ErrorText config_error\<rparr>, calls))"
proof -
  from assms have unset: "\<not> (\<exists>tok cid. os_getenv w ''TELEGRAM_BOT_TOKEN'' = Some tok
              \<and> os_getenv w ''TELEGRAM_CHAT_ID'' = Some cid \<and> tok \<noteq> [] \<and> cid \<noteq> [])"
    by auto
  note n = notify_all_config_error[OF unset]
  have 1: "send_telegram_message w nm ad d calls = (Inl config_error, calls)"
    by (rule send_config_error[OF unset])
  have 2: "rs \<noteq> [] \<longrightarrow> notify_all w rs calls = (Inl config_error, calls)"
    by (simp add: n)
  have 3: "snd (notify_all w rs calls) = calls" for rs
    by (simp add: n)
  have 4: "snd (fetch_and_analyze w ui calls) = calls"
    by (rule fetch_and_analyze_calls) (rule 3)
  have 5: "requests_get w = Json token_data \<and> analyze_token_data token_data = Inr rs \<and> rs \<noteq> [] \<longrightarrow>
            fetch_and_analyze w ui calls =
              (ui\<lparr>status_label := ''Error occurred'', text_box := ErrorText config_error\<rparr>, calls)"
    by (simp add: fetch_and_analyze_def fetch_token_data_def n on_error_def)
  from 1 2 3[of rs] 4 5 show ?thesis by blast
qed

theorem unset_variable_aborts_notifications_witness:
  "os_getenv (example_world (example_env(''TELEGRAM_BOT_TOKEN'' := None))
                (Json (example_response [bare_pair]))) ''TELEGRAM_BOT_TOKEN'' = None
   \<and> fetch_and_analyze (example_world (example_env(''TELEGRAM_BOT_TOKEN'' := None))
                (Json (example_response [bare_pair]))) blank_window []
       = (\<lparr>status_label = ''Error occurred'', text_box = ErrorText config_error\<rparr>, [])"
proof -
  let ?w = "example_world (example_env(''TELEGRAM_BOT_TOKEN'' := None))
                (Json (example_response [bare_pair]))"
  let ?rs = "[\<lparr>name = JString ''FooCoin'', ca = JString ''0xABC'',
               description = ''Price: 0.00 USD, Volume: 0.00''\<rparr>]"
  have u: "os_getenv ?w ''TELEGRAM_BOT_TOKEN'' = None \<or> os_getenv ?w ''TELEGRAM_CHAT_ID'' = None"
    by (simp add: example_world_def)
  have r: "requests_get ?w = Json (example_response [bare_pair])"
    by (simp add: example_world_def)
  have a: "analyze_token_data (example_response [bare_pair]) = Inr ?rs"
    by code_simp
  have n: "?rs \<noteq> []" by simp
  from unset_variable_aborts_notifications[OF u, of _ _ _ "[]" ?rs blank_window
      "example_response [bare_pair]"] r a n u
  show ?thesis by (simp add: blank_window_def example_world_def)
qed

text \<open>
  C10. A variable that is set to the empty string has the effect of an unset one: the
  same exception, raised before any call of \<^verbatim>\<open>bot.send_message\<close>, as in the world where
  the variable is removed.
\<close>

theorem empty_variable_same_as_unset:
  assumes "v = ''TELEGRAM_BOT_TOKEN'' \<or> v = ''TELEGRAM_CHAT_ID''"
    and "os_getenv w v = Some []"
  shows "send_telegram_message w nm ad d calls = (Inl config_error, calls)
       \<and> send_telegram_message (w\<lparr>os_getenv := (os_getenv w)(v := None)\<rparr>) nm ad d calls
           = (Inl config_error, calls)
       \<and> (rs \<noteq> [] \<longrightarrow> notify_all w rs calls = (Inl config_error, calls))
       \<and> snd (notify_all w rs calls) = calls
       \<and> snd (fetch_and_analyze w ui calls) = calls"
proof -
  from assms have empty: "\<not> (\<exists>tok cid. os_getenv w ''TELEGRAM_BOT_TOKEN'' = Some tok
              \<and> os_getenv w ''TELEGRAM_CHAT_ID'' = Some cid \<and> tok \<noteq> [] \<and> cid \<noteq> [])"
    by auto
  let ?w' = "w\<lparr>os_getenv := (os_getenv w)(v := None)\<rparr>"
  from assms(1) have unset: "\<not> (\<exists>tok cid. os_getenv ?w' ''TELEGRAM_BOT_TOKEN'' = Some tok
              \<and> os_getenv ?w' ''TELEGRAM_CHAT_ID'' = Some cid \<and> tok \<noteq> [] \<and> cid \<noteq> [])"
    by auto
  note n = notify_all_config_error[OF empty]
  have 1: "send_telegram_message w nm ad d calls = (Inl config_error, calls)"
    by (rule send_config_error[OF empty])
  have 2: "send_telegram_message ?w' nm ad d calls = (Inl config_error, calls)"
    by (rule send_config_error[OF unset])
  have 3: "rs \<noteq> [] \<longrightarrow> notify_all w rs calls = (Inl config_error, calls)"
    by (simp add: n)
  have 4: "snd (notify_all w rs calls) = calls" for rs
    by (simp add: n)
  have 5: "snd (fetch_and_analyze w ui calls) = calls"
    by (rule fetch_and_analyze_calls) (rule 4)
  from 1 2 3 4[of rs] 5 show ?thesis by blast
qed

theorem empty_variable_same_as_unset_witness:
  "os_getenv (example_world (example_env(''TELEGRAM_CHAT_ID'' \<mapsto> ''''))
                (Json (example_response six_pairs))) ''TELEGRAM_CHAT_ID'' = Some ''''
   \<and> send_telegram_message (example_world (example_env(''TELEGRAM_CHAT_ID'' \<mapsto> ''''))
                (Json (example_response six_pairs)))
        (JString ''FooCoin'') (JString ''0xABC'') ''Price: 1.00 USD, Volume: 2.00'' []
       = (Inl (Exception ''Telegram bot token or chat ID not found in environment variables''), [])"
proof -
  let ?w = "example_world (example_env(''TELEGRAM_CHAT_ID'' \<mapsto> ''''))
                (Json (example_response six_pairs))"
  have v: "''TELEGRAM_CHAT_ID'' = ''TELEGRAM_BOT_TOKEN'' \<or> ''TELEGRAM_CHAT_ID'' = ''TELEGRAM_CHAT_ID''"
    by simp
  have e: "os_getenv ?w ''TELEGRAM_CHAT_ID'' = Some ''''"
    by (simp add: example_world_def)
  from empty_variable_same_as_unset[OF v e] e
  show ?thesis by (simp add: config_error_def)
qed

lemma send_succeeds:
  assumes "os_getenv w ''TELEGRAM_BOT_TOKEN'' = Some tok"
    and "os_getenv w ''TELEGRAM_CHAT_ID'' = Some cid"
    and "tok \<noteq> []" and "cid \<noteq> []"
    and "new_bot w tok = None"
    and "send_message w calls (call_of w tok cid r) = None"
  shows "send_telegram_message w (name r) (ca r) (description r) calls
           = (Inr (), calls @ [call_of w tok cid r])"
  unfolding send_configured[OF assms(1-4)]
  using assms(5,6) by (simp add: call_of_def message_of_def)

lemma send_raises:
  assumes "os_getenv w ''TELEGRAM_BOT_TOKEN'' = Some tok"
    and "os_getenv w ''TELEGRAM_CHAT_ID'' = Some cid"
    and "tok \<noteq> []" and "cid \<noteq> []"
    and "new_bot w tok = None"
    and "send_message w calls (call_of w tok cid r) = Some m"
  shows "send_telegram_message w (name r) (ca r) (description r) calls
           = (Inl (send_failed m), calls @ [call_of w tok cid r])"
  unfolding send_configured[OF assms(1-4)]
  using assms(5,6) by (simp add: call_of_def message_of_def)

lemma notify_all_all_sent:
  assumes "os_getenv w ''TELEGRAM_BOT_TOKEN'' = Some tok"
    and "os_getenv w ''TELEGRAM_CHAT_ID'' = Some cid"
    and "tok \<noteq> []" and "cid \<noteq> []"
    and "new_bot w tok = None"
  shows "\<forall>i<length rs. send_message w (calls @ map (call_of w tok cid) (take i rs))
                           (call_of w tok cid (rs ! i)) = None \<Longrightarrow>
         notify_all w rs calls = (Inr (), calls @ map (call_of w tok cid) rs)"
proof (induction rs arbitrary: calls)
  case Nil
  show ?case by simp
next
  case (Cons r rest)
  from Cons.prems have "send_message w (calls @ map (call_of w tok cid) (take 0 (r # rest)))
                           (call_of w tok cid ((r # rest) ! 0)) = None"
    by blast
  then have first: "send_message w calls (call_of w tok cid r) = None" by simp
  have step: "send_telegram_message w (name r) (ca r) (description r) calls
           = (Inr (), calls @ [call_of w tok cid r])"
    by (rule send_succeeds[OF assms first])
  have "\<forall>i<length rest. send_message w ((calls @ [call_of w tok cid r])
                             @ map (call_of w tok cid) (take i rest))
                           (call_of w tok cid (rest ! i)) = None"
  proof (intro allI impI)
    fix i assume "i < length rest"
    then have "Suc i < length (r # rest)" by simp
    with Cons.prems have "send_message w (calls @ map (call_of w tok cid) (take (Suc i) (r # rest)))
                           (call_of w tok cid ((r # rest) ! Suc i)) = None"
      by blast
    then show "send_message w ((calls @ [call_of w tok cid r])
                             @ map (call_of w tok cid) (take i rest))
                           (call_of w tok cid (rest ! i)) = None"
      by simp
  qed
  from Cons.IH[OF this] step show ?case by simp
qed

lemma notify_all_fails_at:
  assumes "os_getenv w ''TELEGRAM_BOT_TOKEN'' = Some tok"
    and "os_getenv w ''TELEGRAM_CHAT_ID'' = Some cid"
    and "tok \<noteq> []" and "cid \<noteq> []"
    and "new_bot w tok = None"
    and "N < length rs"
    and "\<forall>i<N. send_message w (calls @ map (call_of w tok cid) (take i rs))
                           (call_of w tok cid (rs ! i)) = None"
    and "send_message w (calls @ map (call_of w tok cid) (take N rs))
                           (call_of w tok cid (rs ! N)) = Some m"
  shows "notify_all w rs calls
           = (Inl (send_failed m), calls @ map (call_of w tok cid) (take (Suc N) rs))"
proof -
  have "\<forall>i<length (take N rs). send_message w (calls @ map (call_of w tok cid) (take i (take N rs)))
                           (call_of w tok cid (take N rs ! i)) = None"
    using assms(6,7) by (simp add: min_absorb1)
  from notify_all_all_sent[OF assms(1-5) this]
  have before: "notify_all w (take N rs) calls = (Inr (), calls @ map (call_of w tok cid) (take N rs))" .
  have "send_telegram_message w (name (rs ! N)) (ca (rs ! N)) (description (rs ! N))
          (calls @ map (call_of w tok cid) (take N rs))
        = (Inl (send_failed m), (calls @ map (call_of w tok cid) (take N rs)) @ [call_of w tok cid (rs ! N)])"
    by (rule send_raises[OF assms(1-5,8)])
  from notify_all_stops[OF assms(6) before this]
  show ?thesis using assms(6) by (simp add: take_Suc_conv_app_nth)
qed

lemma fetch_and_analyze_done:
  assumes "requests_get w = Json token_data" and "analyze_token_data token_data = Inr rs"
    and "notify_all w rs calls = (Inr (), calls')"
  shows "fetch_and_analyze w ui calls
           = (ui\<lparr>text_box := Records rs, status_label := ''Done''\<rparr>, calls')"
  using assms by (simp add: fetch_and_analyze_def fetch_token_data_def)

lemma fetch_and_analyze_error:
  assumes "requests_get w = Json token_data" and "analyze_token_data token_data = Inr rs"
    and "notify_all w rs calls = (Inl e, calls')"
  shows "fetch_and_analyze w ui calls
           = (ui\<lparr>text_box := ErrorText e, status_label := ''Error occurred''\<rparr>, calls')"
  using assms by (simp add: fetch_and_analyze_def fetch_token_data_def on_error_def)

lemma notify_all_trace:
  assumes "notify_all w rs calls = (res, calls')"
  shows "(\<exists>k new. k \<le> length rs \<and> calls' = calls @ new
            \<and> map sent_text new = map (message_of w) (take k rs)
            \<and> (res = Inr () \<longrightarrow> k = length rs))
       \<and> (\<forall>N cN e c. N < length rs
            \<and> notify_all w (take N rs) calls = (Inr (), cN)
            \<and> send_telegram_message w (name (rs ! N)) (ca (rs ! N)) (description (rs ! N)) cN
                = (Inl e, c)
            \<longrightarrow> res = Inl e \<and> calls' = c \<and> length calls' \<le> length calls + Suc N)
       \<and> (\<forall>token_data ui. requests_get w = Json token_data
            \<and> analyze_token_data token_data = Inr rs
            \<longrightarrow> snd (fetch_and_analyze w ui calls) = calls')"
proof -
  have order: "\<exists>k new. k \<le> length rs \<and> calls' = calls @ new
            \<and> map sent_text new = map (message_of w) (take k rs)
            \<and> (res = Inr () \<longrightarrow> k = length rs)"
    using assms by (rule notify_all_calls)
  have stop: "res = Inl e \<and> calls' = c \<and> length calls' \<le> length calls + Suc N"
    if "N < length rs" "notify_all w (take N rs) calls = (Inr (), cN)"
      "send_telegram_message w (name (rs ! N)) (ca (rs ! N)) (description (rs ! N)) cN = (Inl e, c)"
    for N cN e c
  proof -
    from notify_all_stops[OF that] assms have r: "res = Inl e" "calls' = c" by simp_all
    from notify_all_succeeded_length[OF that(2)] that(1)
    have "length cN = length calls + N" by simp
    moreover from send_calls[OF that(3)] have "length c \<le> Suc (length cN)" by auto
    ultimately show ?thesis using r by simp
  qed
  have click: "snd (fetch_and_analyze w ui calls) = calls'"
    if "requests_get w = Json token_data" "analyze_token_data token_data = Inr rs"
    for token_data ui
    using fetch_and_analyze_notifies[OF that, of ui calls] assms by simp
  from order stop click show ?thesis by blast
qed

text \<open>
  C9. The loop notifies the records one after the other, in their order. In a world where
  both variables are set and the bot is created: when every call of \<^verbatim>\<open>bot.send_message\<close>
  succeeds, the loop makes exactly one call for each record, in the order of the records,
  and the click ends with \<^verbatim>\<open>Done\<close>; when the calls for the records before index \<open>N\<close>
  succeed and the call for record \<open>N\<close> raises, the loop makes the calls for the records
  up to \<open>N\<close> and none for a later record, and the click shows the error. In every world,
  the calls that a run adds carry the messages of a prefix of the records, and a run in
  which the notification of record \<open>N\<close> raises adds at most \<open>N + 1\<close> calls.
\<close>

theorem notifications_in_order_until_failure:
  "(\<forall>res calls'. notify_all w rs calls = (res, calls') \<longrightarrow>
      (\<exists>k new. k \<le> length rs \<and> calls' = calls @ new
            \<and> map sent_text new = map (message_of w) (take k rs)
            \<and> (res = Inr () \<longrightarrow> k = length rs))
       \<and> (\<forall>N cN e c. N < length rs
            \<and> notify_all w (take N rs) calls = (Inr (), cN)
            \<and> send_telegram_message w (name (rs ! N)) (ca (rs ! N)) (description (rs ! N)) cN
                = (Inl e, c)
            \<longrightarrow> res = Inl e \<and> calls' = c \<and> length calls' \<le> length calls + Suc N)
       \<and> (\<forall>token_data ui. requests_get w = Json token_data
            \<and> analyze_token_data token_data = Inr rs
            \<longrightarrow> snd (fetch_and_analyze w ui calls) = calls'))
   \<and> (os_getenv w ''TELEGRAM_BOT_TOKEN'' = Some tok \<and> os_getenv w ''TELEGRAM_CHAT_ID'' = Some cid
        \<and> tok \<noteq> [] \<and> cid \<noteq> [] \<and> new_bot w tok = None \<longrightarrow>
        ((\<forall>i<length rs. send_message w (calls @ map (call_of w tok cid) (take i rs))
                            (call_of w tok cid (rs ! i)) = None) \<longrightarrow>
           notify_all w rs calls = (Inr (), calls @ map (call_of w tok cid) rs)
           \<and> (\<forall>token_data ui. requests_get w = Json token_data
                 \<and> analyze_token_data token_data = Inr rs \<longrightarrow>
                 fetch_and_analyze w ui calls =
                   (ui\<lparr>text_box := Records rs, status_label := ''Done''\<rparr>,
                    calls @ map (call_of w tok cid) rs)))
        \<and> (\<forall>N m. N < length rs
              \<and> (\<forall>i<N. send_message w (calls @ map (call_of w tok cid) (take i rs))
                            (call_of w tok cid (rs ! i)) = None)
              \<and> send_message w (calls @ map (call_of w tok cid) (take N rs))
                            (call_of w tok cid (rs ! N)) = Some m \<longrightarrow>
              notify_all w rs calls =
                (Inl (send_failed m), calls @ map (call_of w tok cid) (take (Suc N) rs))
              \<and> (\<forall>token_data ui. requests_get w = Json token_data
                    \<and> analyze_token_data token_data = Inr rs \<longrightarrow>
                    fetch_and_analyze w ui calls =
                      (ui\<lparr>text_box := ErrorText (send_failed m),
                          status_label := ''Error occurred''\<rparr>,
                       calls @ map (call_of w tok cid) (take (Suc N) rs)))))"
proof (rule conjI)
  show "\<forall>res calls'. notify_all w rs calls = (res, calls') \<longrightarrow>
      (\<exists>k new. k \<le> length rs \<and> calls' = calls @ new
            \<and> map sent_text new = map (message_of w) (take k rs)
            \<and> (res = Inr () \<longrightarrow> k = length rs))
       \<and> (\<forall>N cN e c. N < length rs
            \<and> notify_all w (take N rs) calls = (Inr (), cN)
            \<and> send_telegram_message w (name (rs ! N)) (ca (rs ! N)) (description (rs ! N)) cN
                = (Inl e, c)
            \<longrightarrow> res = Inl e \<and> calls' = c \<and> length calls' \<le> length calls + Suc N)
       \<and> (\<forall>token_data ui. requests_get w = Json token_data
            \<and> analyze_token_data token_data = Inr rs
            \<longrightarrow> snd (fetch_and_analyze w ui calls) = calls')"
  proof (intro allI impI)
    fix res calls' assume "notify_all w rs calls = (res, calls')"
    then show "(\<exists>k new. k \<le> length rs \<and> calls' = calls @ new
            \<and> map sent_text new = map (message_of w) (take k rs)
            \<and> (res = Inr () \<longrightarrow> k = length rs))
       \<and> (\<forall>N cN e c. N < length rs
            \<and> notify_all w (take N rs) calls = (Inr (), cN)
            \<and> send_telegram_message w (name (rs ! N)) (ca (rs ! N)) (description (rs ! N)) cN
                = (Inl e, c)
            \<longrightarrow> res = Inl e \<and> calls' = c \<and> length calls' \<le> length calls + Suc N)
       \<and> (\<forall>token_data ui. requests_get w = Json token_data
            \<and> analyze_token_data token_data = Inr rs
            \<longrightarrow> snd (fetch_and_analyze w ui calls) = calls')"
      by (rule notify_all_trace)
  qed
next
  show "os_getenv w ''TELEGRAM_BOT_TOKEN'' = Some tok \<and> os_getenv w ''TELEGRAM_CHAT_ID'' = Some cid
        \<and> tok \<noteq> [] \<and> cid \<noteq> [] \<and> new_bot w tok = None \<longrightarrow>
        ((\<forall>i<length rs. send_message w (calls @ map (call_of w tok cid) (take i rs))
                            (call_of w tok cid (rs ! i)) = None) \<longrightarrow>
           notify_all w rs calls = (Inr (), calls @ map (call_of w tok cid) rs)
           \<and> (\<forall>token_data ui. requests_get w = Json token_data
                 \<and> analyze_token_data token_data = Inr rs \<longrightarrow>
                 fetch_and_analyze w ui calls =
                   (ui\<lparr>text_box := Records rs, status_label := ''Done''\<rparr>,
                    calls @ map (call_of w tok cid) rs)))
        \<and> (\<forall>N m. N < length rs
              \<and> (\<forall>i<N. send_message w (calls @ map (call_of w tok cid) (take i rs))
                            (call_of w tok cid (rs ! i)) = None)
              \<and> send_message w (calls @ map (call_of w tok cid) (take N rs))
                            (call_of w tok cid (rs ! N)) = Some m \<longrightarrow>
              notify_all w rs calls =
                (Inl (send_failed m), calls @ map (call_of w tok cid) (take (Suc N) rs))
              \<and> (\<forall>token_data ui. requests_get w = Json token_data
                    \<and> analyze_token_data token_data = Inr rs \<longrightarrow>
                    fetch_and_analyze w ui calls =
                      (ui\<lparr>text_box := ErrorText (send_failed m),
                          status_label := ''Error occurred''\<rparr>,
                       calls @ map (call_of w tok cid) (take (Suc N) rs))))"
  proof
    assume env: "os_getenv w ''TELEGRAM_BOT_TOKEN'' = Some tok \<and> os_getenv w ''TELEGRAM_CHAT_ID'' = Some cid
        \<and> tok \<noteq> [] \<and> cid \<noteq> [] \<and> new_bot w tok = None"
    then have e: "os_getenv w ''TELEGRAM_BOT_TOKEN'' = Some tok" "os_getenv w ''TELEGRAM_CHAT_ID'' = Some cid"
        "tok \<noteq> []" "cid \<noteq> []" "new_bot w tok = None" by simp_all
    have all_sent: "notify_all w rs calls = (Inr (), calls @ map (call_of w tok cid) rs)
           \<and> (\<forall>token_data ui. requests_get w = Json token_data
                 \<and> analyze_token_data token_data = Inr rs \<longrightarrow>
                 fetch_and_analyze w ui calls =
                   (ui\<lparr>text_box := Records rs, status_label := ''Done''\<rparr>,
                    calls @ map (call_of w tok cid) rs))"
      if ok: "\<forall>i<length rs. send_message w (calls @ map (call_of w tok cid) (take i rs))
                            (call_of w tok cid (rs ! i)) = None"
    proof -
      from notify_all_all_sent[OF e ok]
      have n: "notify_all w rs calls = (Inr (), calls @ map (call_of w tok cid) rs)" .
      then show ?thesis using fetch_and_analyze_done[OF _ _ n] by blast
    qed
    have fails: "notify_all w rs calls =
                (Inl (send_failed m), calls @ map (call_of w tok cid) (take (Suc N) rs))
              \<and> (\<forall>token_data ui. requests_get w = Json token_data
                    \<and> analyze_token_data token_data = Inr rs \<longrightarrow>
                    fetch_and_analyze w ui calls =
                      (ui\<lparr>text_box := ErrorText (send_failed m),
                          status_label := ''Error occurred''\<rparr>,
                       calls @ map (call_of w tok cid) (take (Suc N) rs)))"
      if f: "N < length rs"
        "\<forall>i<N. send_message w (calls @ map (call_of w tok cid) (take i rs))
                            (call_of w tok cid (rs ! i)) = None"
        "send_message w (calls @ map (call_of w tok cid) (take N rs))
                            (call_of w tok cid (rs ! N)) = Some m"
      for N m
    proof -
      from notify_all_fails_at[OF e f]
      have n: "notify_all w rs calls =
                (Inl (send_failed m), calls @ map (call_of w tok cid) (take (Suc N) rs))" .
      then show ?thesis using fetch_and_analyze_error[OF _ _ n] by blast
    qed
    from all_sent fails
    show "((\<forall>i<length rs. send_message w (calls @ map (call_of w tok cid) (take i rs))
                            (call_of w tok cid (rs ! i)) = None) \<longrightarrow>
           notify_all w rs calls = (Inr (), calls @ map (call_of w tok cid) rs)
           \<and> (\<forall>token_data ui. requests_get w = Json token_data
                 \<and> analyze_token_data token_data = Inr rs \<longrightarrow>
                 fetch_and_analyze w ui calls =
                   (ui\<lparr>text_box := Records rs, status_label := ''Done''\<rparr>,
                    calls @ map (call_of w tok cid) rs)))
        \<and> (\<forall>N m. N < length rs
              \<and> (\<forall>i<N. send_message w (calls @ map (call_of w tok cid) (take i rs))
                            (call_of w tok cid (rs ! i)) = None)
              \<and> send_message w (calls @ map (call_of w tok cid) (take N rs))
                            (call_of w tok cid (rs ! N)) = Some m \<longrightarrow>
              notify_all w rs calls =
                (Inl (send_failed m), calls @ map (call_of w tok cid) (take (Suc N) rs))
              \<and> (\<forall>token_data ui. requests_get w = Json token_data
                    \<and> analyze_token_data token_data = Inr rs \<longrightarrow>
                    fetch_and_analyze w ui calls =
                      (ui\<lparr>text_box := ErrorText (send_failed m),
                          status_label := ''Error occurred''\<rparr>,
                       calls @ map (call_of w tok cid) (take (Suc N) rs))))"
      by blast
  qed
qed

theorem notifications_in_order_until_failure_witness:
  "notify_all ((example_world example_env (Json (example_response [])))
                 \<lparr>send_message := (\<lambda>calls call. None)\<rparr>)
       (map example_record [''A'', ''B'', ''C'']) []
     = (Inr (),
        [] @ map (call_of ((example_world example_env (Json (example_response [])))
                             \<lparr>send_message := (\<lambda>calls call. None)\<rparr>) ''123:abc'' ''42'')
               (map example_record [''A'', ''B'', ''C'']))
   \<and> map sent_text
         (map (call_of ((example_world example_env (Json (example_response [])))
                          \<lparr>send_message := (\<lambda>calls call. None)\<rparr>) ''123:abc'' ''42'')
            (map example_record [''A'', ''B'', ''C'']))
       = [''Token: A\<newline>CA: 0xABC\<newline>Description: Price: 1.00 USD, Volume: 2.00'',
          ''Token: B\<newline>CA: 0xABC\<newline>Description: Price: 1.00 USD, Volume: 2.00'',
          ''Token: C\<newline>CA: 0xABC\<newline>Description: Price: 1.00 USD, Volume: 2.00'']
   \<and> notify_all (example_world example_env (Json (example_response [])))
         (map example_record [''A'', ''B'', ''C'']) []
       = (Inl (send_failed ''timed out''),
          [] @ map (call_of (example_world example_env (Json (example_response []))) ''123:abc'' ''42'')
                 (take (Suc 1) (map example_record [''A'', ''B'', ''C''])))
   \<and> map sent_text
         (map (call_of (example_world example_env (Json (example_response []))) ''123:abc'' ''42'')
            (take (Suc 1) (map example_record [''A'', ''B'', ''C''])))
       = [''Token: A\<newline>CA: 0xABC\<newline>Description: Price: 1.00 USD, Volume: 2.00'',
          ''Token: B\<newline>CA: 0xABC\<newline>Description: Price: 1.00 USD, Volume: 2.00'']"
proof -
  let ?w = "example_world example_env (Json (example_response []))"
  let ?ok = "?w\<lparr>send_message := (\<lambda>calls call. None)\<rparr>"
  let ?rs = "map example_record [''A'', ''B'', ''C'']"
  have env_ok: "os_getenv ?ok ''TELEGRAM_BOT_TOKEN'' = Some ''123:abc''
        \<and> os_getenv ?ok ''TELEGRAM_CHAT_ID'' = Some ''42''
        \<and> ''123:abc'' \<noteq> [] \<and> ''42'' \<noteq> [] \<and> new_bot ?ok ''123:abc'' = None"
    by (simp add: example_world_def example_env_def)
  have env: "os_getenv ?w ''TELEGRAM_BOT_TOKEN'' = Some ''123:abc''
        \<and> os_getenv ?w ''TELEGRAM_CHAT_ID'' = Some ''42''
        \<and> ''123:abc'' \<noteq> [] \<and> ''42'' \<noteq> [] \<and> new_bot ?w ''123:abc'' = None"
    by (simp add: example_world_def example_env_def)
  have succeed: "\<forall>i<length ?rs. send_message ?ok ([] @ map (call_of ?ok ''123:abc'' ''42'') (take i ?rs))
                            (call_of ?ok ''123:abc'' ''42'' (?rs ! i)) = None"
    by (simp add: example_world_def)
  have fail: "1 < length ?rs
      \<and> (\<forall>i<1. send_message ?w ([] @ map (call_of ?w ''123:abc'' ''42'') (take i ?rs))
                            (call_of ?w ''123:abc'' ''42'' (?rs ! i)) = None)
      \<and> send_message ?w ([] @ map (call_of ?w ''123:abc'' ''42'') (take 1 ?rs))
                            (call_of ?w ''123:abc'' ''42'' (?rs ! 1)) = Some ''timed out''"
    by (simp add: example_world_def)
  note all = notifications_in_order_until_failure[of ?ok ?rs "[]" "''123:abc''" "''42''",
      THEN conjunct2, THEN mp, OF env_ok, THEN conjunct1, THEN mp, OF succeed, THEN conjunct1]
  note stop = notifications_in_order_until_failure[of ?w ?rs "[]" "''123:abc''" "''42''",
      THEN conjunct2, THEN mp, OF env, THEN conjunct2, THEN spec, THEN spec, THEN mp, OF fail,
      THEN conjunct1]
  have texts_all: "map sent_text (map (call_of ?ok ''123:abc'' ''42'') ?rs)
       = [''Token: A\<newline>CA: 0xABC\<newline>Description: Price: 1.00 USD, Volume: 2.00'',
          ''Token: B\<newline>CA: 0xABC\<newline>Description: Price: 1.00 USD, Volume: 2.00'',
          ''Token: C\<newline>CA: 0xABC\<newline>Description: Price: 1.00 USD, Volume: 2.00'']"
    by (simp add: call_of_def message_of_def compose_message_def format_field_def example_record_def)
  have texts_stop: "map sent_text (map (call_of ?w ''123:abc'' ''42'') (take (Suc 1) ?rs))
       = [''Token: A\<newline>CA: 0xABC\<newline>Description: Price: 1.00 USD, Volume: 2.00'',
          ''Token: B\<newline>CA: 0xABC\<newline>Description: Price: 1.00 USD, Volume: 2.00'']"
    by (simp add: call_of_def message_of_def compose_message_def format_field_def example_record_def)
  show ?thesis
    by (rule conjI[OF all conjI[OF texts_all conjI[OF stop texts_stop]]])
qed

end
